theory Spec2Isabelle
  imports Main "HOL-Library.Word" "HOL-Library.Monad_Syntax"
begin

unbundle bit_operations_syntax

section \<open>Machine types\<close>

text \<open>
  \<^verbatim>\<open>unsigned long long\<close> is a 64-bit word, \<^verbatim>\<open>unsigned int\<close> a 32-bit word and
  \<^verbatim>\<open>unsigned char\<close> an 8-bit word. The unions \<^verbatim>\<open>V2DI\<close> and \<^verbatim>\<open>V4DI\<close> of \<^verbatim>\<open>bit.h\<close>
  overlay a vector register with an array \<^verbatim>\<open>ull[2]\<close> or \<^verbatim>\<open>ull[4]\<close>; a vector is modelled by
  the tuple of its 64-bit lanes, lane 0 first.
\<close>

type_synonym u64 = "64 word"
type_synonym u32 = "32 word"
type_synonym u8 = "8 word"
type_synonym v2di = "u64 \<times> u64"
type_synonym v4di = "u64 \<times> u64 \<times> u64 \<times> u64"

text \<open>
  Reading a C array: the index is an \<^verbatim>\<open>int\<close>, and a read outside the array is an error
  of the model (\<open>None\<close>) rather than an unspecified value.
\<close>

definition idx :: "'a list \<Rightarrow> int \<Rightarrow> 'a option" where
  "idx xs i = (if 0 \<le> i \<and> i < int (length xs) then Some (xs ! nat i) else None)"

section \<open>Tables of \<^verbatim>\<open>flip_sse_bitscan.c\<close>\<close>

text \<open>
  The initialisers of \<^verbatim>\<open>maskl\<close> are written \<^verbatim>\<open>~0x00000000000000fe\<close>: the complement
  of a hexadecimal constant that has no suffix. The type of such a constant is the first of
  \<^verbatim>\<open>int\<close>, \<^verbatim>\<open>unsigned int\<close>, \<^verbatim>\<open>long\<close>, ... that holds its value (leading zeros do not
  count), and \<^verbatim>\<open>~\<close> works in that type before the result is converted to the
  \<^verbatim>\<open>unsigned long long\<close> element being initialised. With a 32-bit \<^verbatim>\<open>int\<close>:
  \<^item> a value below \<open>2^31\<close> is an \<^verbatim>\<open>int\<close>; its complement is negative and converts by sign
    extension, which is the 64-bit complement;
  \<^item> a value from \<open>2^31\<close> to \<open>2^32 - 1\<close> is an \<^verbatim>\<open>unsigned int\<close>; its complement is taken
    in 32 bits and converts by zero extension, so the upper 32 bits of the element are 0;
  \<^item> a larger value has a 64-bit type and its complement is the 64-bit complement.
  \<open>cnot v\<close> is the element that \<^verbatim>\<open>~v\<close> initialises.
\<close>

definition cnot :: "nat \<Rightarrow> u64" where
  "cnot v = (if v < 2 ^ 31 then NOT (of_nat v)
             else if v < 2 ^ 32 then ucast (NOT (of_nat v :: u32))
             else NOT (of_nat v))"

definition maskl :: "((u64 \<times> u64) \<times> (u64 \<times> u64)) list" where
  "maskl = [
  ((cnot 0x00000000000000FE, cnot 0x0000000000000000), (cnot 0x0101010101010100, cnot 0x8040201008040200)),
  ((cnot 0x00000000000000FC, cnot 0x0000000000000100), (cnot 0x0202020202020200, cnot 0x0080402010080400)),
  ((cnot 0x00000000000000F8, cnot 0x0000000000010200), (cnot 0x0404040404040400, cnot 0x0000804020100800)),
  ((cnot 0x00000000000000F0, cnot 0x0000000001020400), (cnot 0x0808080808080800, cnot 0x0000008040201000)),
  ((cnot 0x00000000000000E0, cnot 0x0000000102040800), (cnot 0x1010101010101000, cnot 0x0000000080402000)),
  ((cnot 0x00000000000000C0, cnot 0x0000010204081000), (cnot 0x2020202020202000, cnot 0x0000000000804000)),
  ((cnot 0x0000000000000080, cnot 0x0001020408102000), (cnot 0x4040404040404000, cnot 0x0000000000008000)),
  ((cnot 0x0000000000000000, cnot 0x0102040810204000), (cnot 0x8080808080808000, cnot 0x0000000000000000)),
  ((cnot 0x000000000000FE00, cnot 0x0000000000000000), (cnot 0x0101010101010000, cnot 0x4020100804020000)),
  ((cnot 0x000000000000FC00, cnot 0x0000000000010000), (cnot 0x0202020202020000, cnot 0x8040201008040000)),
  ((cnot 0x000000000000F800, cnot 0x0000000001020000), (cnot 0x0404040404040000, cnot 0x0080402010080000)),
  ((cnot 0x000000000000F000, cnot 0x0000000102040000), (cnot 0x0808080808080000, cnot 0x0000804020100000)),
  ((cnot 0x000000000000E000, cnot 0x0000010204080000), (cnot 0x1010101010100000, cnot 0x0000008040200000)),
  ((cnot 0x000000000000C000, cnot 0x0001020408100000), (cnot 0x2020202020200000, cnot 0x0000000080400000)),
  ((cnot 0x0000000000008000, cnot 0x0102040810200000), (cnot 0x4040404040400000, cnot 0x0000000000800000)),
  ((cnot 0x0000000000000000, cnot 0x0204081020400000), (cnot 0x8080808080800000, cnot 0x0000000000000000)),
  ((cnot 0x0000000000FE0000, cnot 0x0000000000000000), (cnot 0x0101010101000000, cnot 0x2010080402000000)),
  ((cnot 0x0000000000FC0000, cnot 0x0000000001000000), (cnot 0x0202020202000000, cnot 0x4020100804000000)),
  ((cnot 0x0000000000F80000, cnot 0x0000000102000000), (cnot 0x0404040404000000, cnot 0x8040201008000000)),
  ((cnot 0x0000000000F00000, cnot 0x0000010204000000), (cnot 0x0808080808000000, cnot 0x0080402010000000)),
  ((cnot 0x0000000000E00000, cnot 0x0001020408000000), (cnot 0x1010101010000000, cnot 0x0000804020000000)),
  ((cnot 0x0000000000C00000, cnot 0x0102040810000000), (cnot 0x2020202020000000, cnot 0x0000008040000000)),
  ((cnot 0x0000000000800000, cnot 0x0204081020000000), (cnot 0x4040404040000000, cnot 0x0000000080000000)),
  ((cnot 0x0000000000000000, cnot 0x0408102040000000), (cnot 0x8080808080000000, cnot 0x0000000000000000)),
  ((cnot 0x00000000FE000000, cnot 0x0000000000000000), (cnot 0x0101010100000000, cnot 0x1008040200000000)),
  ((cnot 0x00000000FC000000, cnot 0x0000000100000000), (cnot 0x0202020200000000, cnot 0x2010080400000000)),
  ((cnot 0x00000000F8000000, cnot 0x0000010200000000), (cnot 0x0404040400000000, cnot 0x4020100800000000)),
  ((cnot 0x00000000F0000000, cnot 0x0001020400000000), (cnot 0x0808080800000000, cnot 0x8040201000000000)),
  ((cnot 0x00000000E0000000, cnot 0x0102040800000000), (cnot 0x1010101000000000, cnot 0x0080402000000000)),
  ((cnot 0x00000000C0000000, cnot 0x0204081000000000), (cnot 0x2020202000000000, cnot 0x0000804000000000)),
  ((cnot 0x0000000080000000, cnot 0x0408102000000000), (cnot 0x4040404000000000, cnot 0x0000008000000000)),
  ((cnot 0x0000000000000000, cnot 0x0810204000000000), (cnot 0x8080808000000000, cnot 0x0000000000000000)),
  ((cnot 0x000000FE00000000, cnot 0x0000000000000000), (cnot 0x0101010000000000, cnot 0x0804020000000000)),
  ((cnot 0x000000FC00000000, cnot 0x0000010000000000), (cnot 0x0202020000000000, cnot 0x1008040000000000)),
  ((cnot 0x000000F800000000, cnot 0x0001020000000000), (cnot 0x0404040000000000, cnot 0x2010080000000000)),
  ((cnot 0x000000F000000000, cnot 0x0102040000000000), (cnot 0x0808080000000000, cnot 0x4020100000000000)),
  ((cnot 0x000000E000000000, cnot 0x0204080000000000), (cnot 0x1010100000000000, cnot 0x8040200000000000)),
  ((cnot 0x000000C000000000, cnot 0x0408100000000000), (cnot 0x2020200000000000, cnot 0x0080400000000000)),
  ((cnot 0x0000008000000000, cnot 0x0810200000000000), (cnot 0x4040400000000000, cnot 0x0000800000000000)),
  ((cnot 0x0000000000000000, cnot 0x1020400000000000), (cnot 0x8080800000000000, cnot 0x0000000000000000)),
  ((cnot 0x0000FE0000000000, cnot 0x0000000000000000), (cnot 0x0101000000000000, cnot 0x0402000000000000)),
  ((cnot 0x0000FC0000000000, cnot 0x0001000000000000), (cnot 0x0202000000000000, cnot 0x0804000000000000)),
  ((cnot 0x0000F80000000000, cnot 0x0102000000000000), (cnot 0x0404000000000000, cnot 0x1008000000000000)),
  ((cnot 0x0000F00000000000, cnot 0x0204000000000000), (cnot 0x0808000000000000, cnot 0x2010000000000000)),
  ((cnot 0x0000E00000000000, cnot 0x0408000000000000), (cnot 0x1010000000000000, cnot 0x4020000000000000)),
  ((cnot 0x0000C00000000000, cnot 0x0810000000000000), (cnot 0x2020000000000000, cnot 0x8040000000000000)),
  ((cnot 0x0000800000000000, cnot 0x1020000000000000), (cnot 0x4040000000000000, cnot 0x0080000000000000)),
  ((cnot 0x0000000000000000, cnot 0x2040000000000000), (cnot 0x8080000000000000, cnot 0x0000000000000000)),
  ((cnot 0x00FE000000000000, cnot 0x0000000000000000), (cnot 0x0100000000000000, cnot 0x0200000000000000)),
  ((cnot 0x00FC000000000000, cnot 0x0100000000000000), (cnot 0x0200000000000000, cnot 0x0400000000000000)),
  ((cnot 0x00F8000000000000, cnot 0x0200000000000000), (cnot 0x0400000000000000, cnot 0x0800000000000000)),
  ((cnot 0x00F0000000000000, cnot 0x0400000000000000), (cnot 0x0800000000000000, cnot 0x1000000000000000)),
  ((cnot 0x00E0000000000000, cnot 0x0800000000000000), (cnot 0x1000000000000000, cnot 0x2000000000000000)),
  ((cnot 0x00C0000000000000, cnot 0x1000000000000000), (cnot 0x2000000000000000, cnot 0x4000000000000000)),
  ((cnot 0x0080000000000000, cnot 0x2000000000000000), (cnot 0x4000000000000000, cnot 0x8000000000000000)),
  ((cnot 0x0000000000000000, cnot 0x4000000000000000), (cnot 0x8000000000000000, cnot 0x0000000000000000)),
  ((cnot 0xFE00000000000000, cnot 0x0000000000000000), (cnot 0x0000000000000000, cnot 0x0000000000000000)),
  ((cnot 0xFC00000000000000, cnot 0x0000000000000000), (cnot 0x0000000000000000, cnot 0x0000000000000000)),
  ((cnot 0xF800000000000000, cnot 0x0000000000000000), (cnot 0x0000000000000000, cnot 0x0000000000000000)),
  ((cnot 0xF000000000000000, cnot 0x0000000000000000), (cnot 0x0000000000000000, cnot 0x0000000000000000)),
  ((cnot 0xE000000000000000, cnot 0x0000000000000000), (cnot 0x0000000000000000, cnot 0x0000000000000000)),
  ((cnot 0xC000000000000000, cnot 0x0000000000000000), (cnot 0x0000000000000000, cnot 0x0000000000000000)),
  ((cnot 0x8000000000000000, cnot 0x0000000000000000), (cnot 0x0000000000000000, cnot 0x0000000000000000)),
  ((cnot 0x0000000000000000, cnot 0x0000000000000000), (cnot 0x0000000000000000, cnot 0x0000000000000000))]"


text \<open>
  \<^verbatim>\<open>masko\<close> is compiled only without \<^verbatim>\<open>__LZCNT__\<close>; \<^verbatim>\<open>masko\<close> and \<^verbatim>\<open>maskr\<close> are arrays
  \<^verbatim>\<open>[64][4]\<close> whose initialisers are written without inner braces, four to a square.
\<close>

definition masko :: "(u64 \<times> u64 \<times> u64 \<times> u64) list" where
  "masko = [
  (0x0000000000000000, 0x0000000000000000, 0x0000000000000000, 0x0000000000000000),
  (0x0000000000000000, 0x0000000000000000, 0x0000000000000000, 0x0000000000000000),
  (0x0000000000000002, 0x0000000000000000, 0x0000000000000000, 0x0000000000000000),
  (0x0000000000000006, 0x0000000000000000, 0x0000000000000000, 0x0000000000000000),
  (0x000000000000000E, 0x0000000000000000, 0x0000000000000000, 0x0000000000000000),
  (0x000000000000001E, 0x0000000000000000, 0x0000000000000000, 0x0000000000000000),
  (0x000000000000003E, 0x0000000000000000, 0x0000000000000000, 0x0000000000000000),
  (0x000000000000007E, 0x0000000000000000, 0x0000000000000000, 0x0000000000000000),
  (0x0000000000000000, 0x0000000000000000, 0x0000000000000000, 0x0000000000000000),
  (0x0000000000000000, 0x0000000000000000, 0x0000000000000000, 0x0000000000000000),
  (0x0000000000000200, 0x0000000000000000, 0x0000000000000000, 0x0000000000000000),
  (0x0000000000000600, 0x0000000000000000, 0x0000000000000000, 0x0000000000000000),
  (0x0000000000000E00, 0x0000000000000000, 0x0000000000000000, 0x0000000000000000),
  (0x0000000000001E00, 0x0000000000000000, 0x0000000000000000, 0x0000000000000000),
  (0x0000000000003E00, 0x0000000000000000, 0x0000000000000000, 0x0000000000000000),
  (0x0000000000007E00, 0x0000000000000000, 0x0000000000000000, 0x0000000000000000),
  (0x0000000000000000, 0x0000000000000200, 0x0000000000000100, 0x0000000000000000),
  (0x0000000000000000, 0x0000000000000400, 0x0000000000000200, 0x0000000000000000),
  (0x0000000000020000, 0x0000000000000800, 0x0000000000000400, 0x0000000000000200),
  (0x0000000000060000, 0x0000000000001000, 0x0000000000000800, 0x0000000000000400),
  (0x00000000000E0000, 0x0000000000002000, 0x0000000000001000, 0x0000000000000800),
  (0x00000000001E0000, 0x0000000000004000, 0x0000000000002000, 0x0000000000001000),
  (0x00000000003E0000, 0x0000000000000000, 0x0000000000004000, 0x0000000000002000),
  (0x00000000007E0000, 0x0000000000000000, 0x0000000000008000, 0x0000000000004000),
  (0x0000000000000000, 0x0000000000020400, 0x0000000000010100, 0x0000000000000000),
  (0x0000000000000000, 0x0000000000040800, 0x0000000000020200, 0x0000000000000000),
  (0x0000000002000000, 0x0000000000081000, 0x0000000000040400, 0x0000000000020000),
  (0x0000000006000000, 0x0000000000102000, 0x0000000000080800, 0x0000000000040200),
  (0x000000000E000000, 0x0000000000204000, 0x0000000000101000, 0x0000000000080400),
  (0x000000001E000000, 0x0000000000400000, 0x0000000000202000, 0x0000000000100800),
  (0x000000003E000000, 0x0000000000000000, 0x0000000000404000, 0x0000000000201000),
  (0x000000007E000000, 0x0000000000000000, 0x0000000000808000, 0x0000000000402000),
  (0x0000000000000000, 0x0000000002040800, 0x0000000001010100, 0x0000000000000000),
  (0x0000000000000000, 0x0000000004081000, 0x0000000002020200, 0x0000000000000000),
  (0x0000000200000000, 0x0000000008102000, 0x0000000004040400, 0x0000000002000000),
  (0x0000000600000000, 0x0000000010204000, 0x0000000008080800, 0x0000000004020000),
  (0x0000000E00000000, 0x0000000020400000, 0x0000000010101000, 0x0000000008040200),
  (0x0000001E00000000, 0x0000000040000000, 0x0000000020202000, 0x0000000010080400),
  (0x0000003E00000000, 0x0000000000000000, 0x0000000040404000, 0x0000000020100800),
  (0x0000007E00000000, 0x0000000000000000, 0x0000000080808000, 0x0000000040201000),
  (0x0000000000000000, 0x0000000204081000, 0x0000000101010100, 0x0000000000000000),
  (0x0000000000000000, 0x0000000408102000, 0x0000000202020200, 0x0000000000000000),
  (0x0000020000000000, 0x0000000810204000, 0x0000000404040400, 0x0000000200000000),
  (0x0000060000000000, 0x0000001020400000, 0x0000000808080800, 0x0000000402000000),
  (0x00000E0000000000, 0x0000002040000000, 0x0000001010101000, 0x0000000804020000),
  (0x00001E0000000000, 0x0000004000000000, 0x0000002020202000, 0x0000001008040200),
  (0x00003E0000000000, 0x0000000000000000, 0x0000004040404000, 0x0000002010080400),
  (0x00007E0000000000, 0x0000000000000000, 0x0000008080808000, 0x0000004020100800),
  (0x0000000000000000, 0x0000020408102000, 0x0000010101010100, 0x0000000000000000),
  (0x0000000000000000, 0x0000040810204000, 0x0000020202020200, 0x0000000000000000),
  (0x0002000000000000, 0x0000081020400000, 0x0000040404040400, 0x0000020000000000),
  (0x0006000000000000, 0x0000102040000000, 0x0000080808080800, 0x0000040200000000),
  (0x000E000000000000, 0x0000204000000000, 0x0000101010101000, 0x0000080402000000),
  (0x001E000000000000, 0x0000400000000000, 0x0000202020202000, 0x0000100804020000),
  (0x003E000000000000, 0x0000000000000000, 0x0000404040404000, 0x0000201008040200),
  (0x007E000000000000, 0x0000000000000000, 0x0000808080808000, 0x0000402010080400),
  (0x0000000000000000, 0x0002040810204000, 0x0001010101010100, 0x0000000000000000),
  (0x0000000000000000, 0x0004081020400000, 0x0002020202020200, 0x0000000000000000),
  (0x0200000000000000, 0x0008102040000000, 0x0004040404040400, 0x0002000000000000),
  (0x0600000000000000, 0x0010204000000000, 0x0008080808080800, 0x0004020000000000),
  (0x0E00000000000000, 0x0020400000000000, 0x0010101010101000, 0x0008040200000000),
  (0x1E00000000000000, 0x0040000000000000, 0x0020202020202000, 0x0010080402000000),
  (0x3E00000000000000, 0x0000000000000000, 0x0040404040404000, 0x0020100804020000),
  (0x7E00000000000000, 0x0000000000000000, 0x0080808080808000, 0x0040201008040200)]"


definition maskr :: "(u64 \<times> u64 \<times> u64 \<times> u64) list" where
  "maskr = [
  (0x0000000000000000, 0x0000000000000000, 0x0000000000000000, 0x0000000000000000),
  (0x0000000000000001, 0x0000000000000000, 0x0000000000000000, 0x0000000000000000),
  (0x0000000000000003, 0x0000000000000000, 0x0000000000000000, 0x0000000000000000),
  (0x0000000000000007, 0x0000000000000000, 0x0000000000000000, 0x0000000000000000),
  (0x000000000000000F, 0x0000000000000000, 0x0000000000000000, 0x0000000000000000),
  (0x000000000000001F, 0x0000000000000000, 0x0000000000000000, 0x0000000000000000),
  (0x000000000000003F, 0x0000000000000000, 0x0000000000000000, 0x0000000000000000),
  (0x000000000000007F, 0x0000000000000000, 0x0000000000000000, 0x0000000000000000),
  (0x0000000000000000, 0x0000000000000002, 0x0000000000000001, 0x0000000000000000),
  (0x0000000000000100, 0x0000000000000004, 0x0000000000000002, 0x0000000000000001),
  (0x0000000000000300, 0x0000000000000008, 0x0000000000000004, 0x0000000000000002),
  (0x0000000000000700, 0x0000000000000010, 0x0000000000000008, 0x0000000000000004),
  (0x0000000000000F00, 0x0000000000000020, 0x0000000000000010, 0x0000000000000008),
  (0x0000000000001F00, 0x0000000000000040, 0x0000000000000020, 0x0000000000000010),
  (0x0000000000003F00, 0x0000000000000080, 0x0000000000000040, 0x0000000000000020),
  (0x0000000000007F00, 0x0000000000000000, 0x0000000000000080, 0x0000000000000040),
  (0x0000000000000000, 0x0000000000000204, 0x0000000000000101, 0x0000000000000000),
  (0x0000000000010000, 0x0000000000000408, 0x0000000000000202, 0x0000000000000100),
  (0x0000000000030000, 0x0000000000000810, 0x0000000000000404, 0x0000000000000201),
  (0x0000000000070000, 0x0000000000001020, 0x0000000000000808, 0x0000000000000402),
  (0x00000000000F0000, 0x0000000000002040, 0x0000000000001010, 0x0000000000000804),
  (0x00000000001F0000, 0x0000000000004080, 0x0000000000002020, 0x0000000000001008),
  (0x00000000003F0000, 0x0000000000008000, 0x0000000000004040, 0x0000000000002010),
  (0x00000000007F0000, 0x0000000000000000, 0x0000000000008080, 0x0000000000004020),
  (0x0000000000000000, 0x0000000000020408, 0x0000000000010101, 0x0000000000000000),
  (0x0000000001000000, 0x0000000000040810, 0x0000000000020202, 0x0000000000010000),
  (0x0000000003000000, 0x0000000000081020, 0x0000000000040404, 0x0000000000020100),
  (0x0000000007000000, 0x0000000000102040, 0x0000000000080808, 0x0000000000040201),
  (0x000000000F000000, 0x0000000000204080, 0x0000000000101010, 0x0000000000080402),
  (0x000000001F000000, 0x0000000000408000, 0x0000000000202020, 0x0000000000100804),
  (0x000000003F000000, 0x0000000000800000, 0x0000000000404040, 0x0000000000201008),
  (0x000000007F000000, 0x0000000000000000, 0x0000000000808080, 0x0000000000402010),
  (0x0000000000000000, 0x0000000002040810, 0x0000000001010101, 0x0000000000000000),
  (0x0000000100000000, 0x0000000004081020, 0x0000000002020202, 0x0000000001000000),
  (0x0000000300000000, 0x0000000008102040, 0x0000000004040404, 0x0000000002010000),
  (0x0000000700000000, 0x0000000010204080, 0x0000000008080808, 0x0000000004020100),
  (0x0000000F00000000, 0x0000000020408000, 0x0000000010101010, 0x0000000008040201),
  (0x0000001F00000000, 0x0000000040800000, 0x0000000020202020, 0x0000000010080402),
  (0x0000003F00000000, 0x0000000080000000, 0x0000000040404040, 0x0000000020100804),
  (0x0000007F00000000, 0x0000000000000000, 0x0000000080808080, 0x0000000040201008),
  (0x0000000000000000, 0x0000000204081020, 0x0000000101010101, 0x0000000000000000),
  (0x0000010000000000, 0x0000000408102040, 0x0000000202020202, 0x0000000100000000),
  (0x0000030000000000, 0x0000000810204080, 0x0000000404040404, 0x0000000201000000),
  (0x0000070000000000, 0x0000001020408000, 0x0000000808080808, 0x0000000402010000),
  (0x00000F0000000000, 0x0000002040800000, 0x0000001010101010, 0x0000000804020100),
  (0x00001F0000000000, 0x0000004080000000, 0x0000002020202020, 0x0000001008040201),
  (0x00003F0000000000, 0x0000008000000000, 0x0000004040404040, 0x0000002010080402),
  (0x00007F0000000000, 0x0000000000000000, 0x0000008080808080, 0x0000004020100804),
  (0x0000000000000000, 0x0000020408102040, 0x0000010101010101, 0x0000000000000000),
  (0x0001000000000000, 0x0000040810204080, 0x0000020202020202, 0x0000010000000000),
  (0x0003000000000000, 0x0000081020408000, 0x0000040404040404, 0x0000020100000000),
  (0x0007000000000000, 0x0000102040800000, 0x0000080808080808, 0x0000040201000000),
  (0x000F000000000000, 0x0000204080000000, 0x0000101010101010, 0x0000080402010000),
  (0x001F000000000000, 0x0000408000000000, 0x0000202020202020, 0x0000100804020100),
  (0x003F000000000000, 0x0000800000000000, 0x0000404040404040, 0x0000201008040201),
  (0x007F000000000000, 0x0000000000000000, 0x0000808080808080, 0x0000402010080402),
  (0x0000000000000000, 0x0002040810204080, 0x0001010101010101, 0x0000000000000000),
  (0x0100000000000000, 0x0004081020408000, 0x0002020202020202, 0x0001000000000000),
  (0x0300000000000000, 0x0008102040800000, 0x0004040404040404, 0x0002010000000000),
  (0x0700000000000000, 0x0010204080000000, 0x0008080808080808, 0x0004020100000000),
  (0x0F00000000000000, 0x0020408000000000, 0x0010101010101010, 0x0008040201000000),
  (0x1F00000000000000, 0x0040800000000000, 0x0020202020202020, 0x0010080402010000),
  (0x3F00000000000000, 0x0080000000000000, 0x0040404040404040, 0x0020100804020100),
  (0x7F00000000000000, 0x0000000000000000, 0x0080808080808080, 0x0040201008040201)]"


section \<open>Tables of \<^verbatim>\<open>count_last_flip_sse.c\<close>\<close>

definition COUNT_FLIP :: "u8 list list" where
  "COUNT_FLIP = [
   [
    0, 0, 0, 0, 2, 2, 0, 0, 4, 4, 0, 0, 2, 2, 0, 0, 6, 6, 0, 0, 2, 2, 0, 0, 4, 4, 0, 0, 2, 2, 0, 0,
    8, 8, 0, 0, 2, 2, 0, 0, 4, 4, 0, 0, 2, 2, 0, 0, 6, 6, 0, 0, 2, 2, 0, 0, 4, 4, 0, 0, 2, 2, 0, 0,
    10, 10, 0, 0, 2, 2, 0, 0, 4, 4, 0, 0, 2, 2, 0, 0, 6, 6, 0, 0, 2, 2, 0, 0, 4, 4, 0, 0, 2, 2, 0, 0,
    8, 8, 0, 0, 2, 2, 0, 0, 4, 4, 0, 0, 2, 2, 0, 0, 6, 6, 0, 0, 2, 2, 0, 0, 4, 4, 0, 0, 2, 2, 0, 0,
    12, 12, 0, 0, 2, 2, 0, 0, 4, 4, 0, 0, 2, 2, 0, 0, 6, 6, 0, 0, 2, 2, 0, 0, 4, 4, 0, 0, 2, 2, 0, 0,
    8, 8, 0, 0, 2, 2, 0, 0, 4, 4, 0, 0, 2, 2, 0, 0, 6, 6, 0, 0, 2, 2, 0, 0, 4, 4, 0, 0, 2, 2, 0, 0,
    10, 10, 0, 0, 2, 2, 0, 0, 4, 4, 0, 0, 2, 2, 0, 0, 6, 6, 0, 0, 2, 2, 0, 0, 4, 4, 0, 0, 2, 2, 0, 0,
    8, 8, 0, 0, 2, 2, 0, 0, 4, 4, 0, 0, 2, 2, 0, 0, 6, 6, 0, 0, 2, 2, 0, 0, 4, 4, 0, 0, 2, 2, 0, 0],
   [
    0, 0, 0, 0, 0, 0, 0, 0, 2, 2, 2, 2, 0, 0, 0, 0, 4, 4, 4, 4, 0, 0, 0, 0, 2, 2, 2, 2, 0, 0, 0, 0,
    6, 6, 6, 6, 0, 0, 0, 0, 2, 2, 2, 2, 0, 0, 0, 0, 4, 4, 4, 4, 0, 0, 0, 0, 2, 2, 2, 2, 0, 0, 0, 0,
    8, 8, 8, 8, 0, 0, 0, 0, 2, 2, 2, 2, 0, 0, 0, 0, 4, 4, 4, 4, 0, 0, 0, 0, 2, 2, 2, 2, 0, 0, 0, 0,
    6, 6, 6, 6, 0, 0, 0, 0, 2, 2, 2, 2, 0, 0, 0, 0, 4, 4, 4, 4, 0, 0, 0, 0, 2, 2, 2, 2, 0, 0, 0, 0,
    10, 10, 10, 10, 0, 0, 0, 0, 2, 2, 2, 2, 0, 0, 0, 0, 4, 4, 4, 4, 0, 0, 0, 0, 2, 2, 2, 2, 0, 0, 0, 0,
    6, 6, 6, 6, 0, 0, 0, 0, 2, 2, 2, 2, 0, 0, 0, 0, 4, 4, 4, 4, 0, 0, 0, 0, 2, 2, 2, 2, 0, 0, 0, 0,
    8, 8, 8, 8, 0, 0, 0, 0, 2, 2, 2, 2, 0, 0, 0, 0, 4, 4, 4, 4, 0, 0, 0, 0, 2, 2, 2, 2, 0, 0, 0, 0,
    6, 6, 6, 6, 0, 0, 0, 0, 2, 2, 2, 2, 0, 0, 0, 0, 4, 4, 4, 4, 0, 0, 0, 0, 2, 2, 2, 2, 0, 0, 0, 0],
   [
    0, 2, 0, 0, 0, 2, 0, 0, 0, 2, 0, 0, 0, 2, 0, 0, 2, 4, 2, 2, 2, 4, 2, 2, 0, 2, 0, 0, 0, 2, 0, 0,
    4, 6, 4, 4, 4, 6, 4, 4, 0, 2, 0, 0, 0, 2, 0, 0, 2, 4, 2, 2, 2, 4, 2, 2, 0, 2, 0, 0, 0, 2, 0, 0,
    6, 8, 6, 6, 6, 8, 6, 6, 0, 2, 0, 0, 0, 2, 0, 0, 2, 4, 2, 2, 2, 4, 2, 2, 0, 2, 0, 0, 0, 2, 0, 0,
    4, 6, 4, 4, 4, 6, 4, 4, 0, 2, 0, 0, 0, 2, 0, 0, 2, 4, 2, 2, 2, 4, 2, 2, 0, 2, 0, 0, 0, 2, 0, 0,
    8, 10, 8, 8, 8, 10, 8, 8, 0, 2, 0, 0, 0, 2, 0, 0, 2, 4, 2, 2, 2, 4, 2, 2, 0, 2, 0, 0, 0, 2, 0, 0,
    4, 6, 4, 4, 4, 6, 4, 4, 0, 2, 0, 0, 0, 2, 0, 0, 2, 4, 2, 2, 2, 4, 2, 2, 0, 2, 0, 0, 0, 2, 0, 0,
    6, 8, 6, 6, 6, 8, 6, 6, 0, 2, 0, 0, 0, 2, 0, 0, 2, 4, 2, 2, 2, 4, 2, 2, 0, 2, 0, 0, 0, 2, 0, 0,
    4, 6, 4, 4, 4, 6, 4, 4, 0, 2, 0, 0, 0, 2, 0, 0, 2, 4, 2, 2, 2, 4, 2, 2, 0, 2, 0, 0, 0, 2, 0, 0],
   [
    0, 4, 2, 2, 0, 0, 0, 0, 0, 4, 2, 2, 0, 0, 0, 0, 0, 4, 2, 2, 0, 0, 0, 0, 0, 4, 2, 2, 0, 0, 0, 0,
    2, 6, 4, 4, 2, 2, 2, 2, 2, 6, 4, 4, 2, 2, 2, 2, 0, 4, 2, 2, 0, 0, 0, 0, 0, 4, 2, 2, 0, 0, 0, 0,
    4, 8, 6, 6, 4, 4, 4, 4, 4, 8, 6, 6, 4, 4, 4, 4, 0, 4, 2, 2, 0, 0, 0, 0, 0, 4, 2, 2, 0, 0, 0, 0,
    2, 6, 4, 4, 2, 2, 2, 2, 2, 6, 4, 4, 2, 2, 2, 2, 0, 4, 2, 2, 0, 0, 0, 0, 0, 4, 2, 2, 0, 0, 0, 0,
    6, 10, 8, 8, 6, 6, 6, 6, 6, 10, 8, 8, 6, 6, 6, 6, 0, 4, 2, 2, 0, 0, 0, 0, 0, 4, 2, 2, 0, 0, 0, 0,
    2, 6, 4, 4, 2, 2, 2, 2, 2, 6, 4, 4, 2, 2, 2, 2, 0, 4, 2, 2, 0, 0, 0, 0, 0, 4, 2, 2, 0, 0, 0, 0,
    4, 8, 6, 6, 4, 4, 4, 4, 4, 8, 6, 6, 4, 4, 4, 4, 0, 4, 2, 2, 0, 0, 0, 0, 0, 4, 2, 2, 0, 0, 0, 0,
    2, 6, 4, 4, 2, 2, 2, 2, 2, 6, 4, 4, 2, 2, 2, 2, 0, 4, 2, 2, 0, 0, 0, 0, 0, 4, 2, 2, 0, 0, 0, 0],
   [
    0, 6, 4, 4, 2, 2, 2, 2, 0, 0, 0, 0, 0, 0, 0, 0, 0, 6, 4, 4, 2, 2, 2, 2, 0, 0, 0, 0, 0, 0, 0, 0,
    0, 6, 4, 4, 2, 2, 2, 2, 0, 0, 0, 0, 0, 0, 0, 0, 0, 6, 4, 4, 2, 2, 2, 2, 0, 0, 0, 0, 0, 0, 0, 0,
    2, 8, 6, 6, 4, 4, 4, 4, 2, 2, 2, 2, 2, 2, 2, 2, 2, 8, 6, 6, 4, 4, 4, 4, 2, 2, 2, 2, 2, 2, 2, 2,
    0, 6, 4, 4, 2, 2, 2, 2, 0, 0, 0, 0, 0, 0, 0, 0, 0, 6, 4, 4, 2, 2, 2, 2, 0, 0, 0, 0, 0, 0, 0, 0,
    4, 10, 8, 8, 6, 6, 6, 6, 4, 4, 4, 4, 4, 4, 4, 4, 4, 10, 8, 8, 6, 6, 6, 6, 4, 4, 4, 4, 4, 4, 4, 4,
    0, 6, 4, 4, 2, 2, 2, 2, 0, 0, 0, 0, 0, 0, 0, 0, 0, 6, 4, 4, 2, 2, 2, 2, 0, 0, 0, 0, 0, 0, 0, 0,
    2, 8, 6, 6, 4, 4, 4, 4, 2, 2, 2, 2, 2, 2, 2, 2, 2, 8, 6, 6, 4, 4, 4, 4, 2, 2, 2, 2, 2, 2, 2, 2,
    0, 6, 4, 4, 2, 2, 2, 2, 0, 0, 0, 0, 0, 0, 0, 0, 0, 6, 4, 4, 2, 2, 2, 2, 0, 0, 0, 0, 0, 0, 0, 0],
   [
    0, 8, 6, 6, 4, 4, 4, 4, 2, 2, 2, 2, 2, 2, 2, 2, 0, 0, 0, 0, 0, 0, 0, 0, 0, 0, 0, 0, 0, 0, 0, 0,
    0, 8, 6, 6, 4, 4, 4, 4, 2, 2, 2, 2, 2, 2, 2, 2, 0, 0, 0, 0, 0, 0, 0, 0, 0, 0, 0, 0, 0, 0, 0, 0,
    0, 8, 6, 6, 4, 4, 4, 4, 2, 2, 2, 2, 2, 2, 2, 2, 0, 0, 0, 0, 0, 0, 0, 0, 0, 0, 0, 0, 0, 0, 0, 0,
    0, 8, 6, 6, 4, 4, 4, 4, 2, 2, 2, 2, 2, 2, 2, 2, 0, 0, 0, 0, 0, 0, 0, 0, 0, 0, 0, 0, 0, 0, 0, 0,
    2, 10, 8, 8, 6, 6, 6, 6, 4, 4, 4, 4, 4, 4, 4, 4, 2, 2, 2, 2, 2, 2, 2, 2, 2, 2, 2, 2, 2, 2, 2, 2,
    2, 10, 8, 8, 6, 6, 6, 6, 4, 4, 4, 4, 4, 4, 4, 4, 2, 2, 2, 2, 2, 2, 2, 2, 2, 2, 2, 2, 2, 2, 2, 2,
    0, 8, 6, 6, 4, 4, 4, 4, 2, 2, 2, 2, 2, 2, 2, 2, 0, 0, 0, 0, 0, 0, 0, 0, 0, 0, 0, 0, 0, 0, 0, 0,
    0, 8, 6, 6, 4, 4, 4, 4, 2, 2, 2, 2, 2, 2, 2, 2, 0, 0, 0, 0, 0, 0, 0, 0, 0, 0, 0, 0, 0, 0, 0, 0],
   [
    0, 10, 8, 8, 6, 6, 6, 6, 4, 4, 4, 4, 4, 4, 4, 4, 2, 2, 2, 2, 2, 2, 2, 2, 2, 2, 2, 2, 2, 2, 2, 2,
    0, 0, 0, 0, 0, 0, 0, 0, 0, 0, 0, 0, 0, 0, 0, 0, 0, 0, 0, 0, 0, 0, 0, 0, 0, 0, 0, 0, 0, 0, 0, 0,
    0, 10, 8, 8, 6, 6, 6, 6, 4, 4, 4, 4, 4, 4, 4, 4, 2, 2, 2, 2, 2, 2, 2, 2, 2, 2, 2, 2, 2, 2, 2, 2,
    0, 0, 0, 0, 0, 0, 0, 0, 0, 0, 0, 0, 0, 0, 0, 0, 0, 0, 0, 0, 0, 0, 0, 0, 0, 0, 0, 0, 0, 0, 0, 0,
    0, 10, 8, 8, 6, 6, 6, 6, 4, 4, 4, 4, 4, 4, 4, 4, 2, 2, 2, 2, 2, 2, 2, 2, 2, 2, 2, 2, 2, 2, 2, 2,
    0, 0, 0, 0, 0, 0, 0, 0, 0, 0, 0, 0, 0, 0, 0, 0, 0, 0, 0, 0, 0, 0, 0, 0, 0, 0, 0, 0, 0, 0, 0, 0,
    0, 10, 8, 8, 6, 6, 6, 6, 4, 4, 4, 4, 4, 4, 4, 4, 2, 2, 2, 2, 2, 2, 2, 2, 2, 2, 2, 2, 2, 2, 2, 2,
    0, 0, 0, 0, 0, 0, 0, 0, 0, 0, 0, 0, 0, 0, 0, 0, 0, 0, 0, 0, 0, 0, 0, 0, 0, 0, 0, 0, 0, 0, 0, 0],
   [
    0, 12, 10, 10, 8, 8, 8, 8, 6, 6, 6, 6, 6, 6, 6, 6, 4, 4, 4, 4, 4, 4, 4, 4, 4, 4, 4, 4, 4, 4, 4, 4,
    2, 2, 2, 2, 2, 2, 2, 2, 2, 2, 2, 2, 2, 2, 2, 2, 2, 2, 2, 2, 2, 2, 2, 2, 2, 2, 2, 2, 2, 2, 2, 2,
    0, 0, 0, 0, 0, 0, 0, 0, 0, 0, 0, 0, 0, 0, 0, 0, 0, 0, 0, 0, 0, 0, 0, 0, 0, 0, 0, 0, 0, 0, 0, 0,
    0, 0, 0, 0, 0, 0, 0, 0, 0, 0, 0, 0, 0, 0, 0, 0, 0, 0, 0, 0, 0, 0, 0, 0, 0, 0, 0, 0, 0, 0, 0, 0,
    0, 12, 10, 10, 8, 8, 8, 8, 6, 6, 6, 6, 6, 6, 6, 6, 4, 4, 4, 4, 4, 4, 4, 4, 4, 4, 4, 4, 4, 4, 4, 4,
    2, 2, 2, 2, 2, 2, 2, 2, 2, 2, 2, 2, 2, 2, 2, 2, 2, 2, 2, 2, 2, 2, 2, 2, 2, 2, 2, 2, 2, 2, 2, 2,
    0, 0, 0, 0, 0, 0, 0, 0, 0, 0, 0, 0, 0, 0, 0, 0, 0, 0, 0, 0, 0, 0, 0, 0, 0, 0, 0, 0, 0, 0, 0, 0,
    0, 0, 0, 0, 0, 0, 0, 0, 0, 0, 0, 0, 0, 0, 0, 0, 0, 0, 0, 0, 0, 0, 0, 0, 0, 0, 0, 0, 0, 0, 0, 0]]"


text \<open>
  The diagonal masks are declared twice. \<^verbatim>\<open>mask_d_v\<close>, under \<^verbatim>\<open>#ifdef __AVX2__\<close>, is the table
  below. The declaration of \<^verbatim>\<open>mask_d\<close> under \<^verbatim>\<open>#else\<close> has the letter \<^verbatim>\<open>y\<close> between two of
  its initialisers (line 191 of the file), so it is not a well-formed declaration and
  defines no table: it has no counterpart here.
\<close>

definition mask_d_v :: "(u64 \<times> u64 \<times> u64 \<times> u64) list" where
  "mask_d_v = [
  (0x0000000000000001, 0x8040201008040201, 0x0101010101010101, 0),
  (0x0000000000000102, 0x0080402010080402, 0x0202020202020202, 0),
  (0x0000000000010204, 0x0000804020100804, 0x0404040404040404, 0),
  (0x0000000001020408, 0x0000008040201008, 0x0808080808080808, 0),
  (0x0000000102040810, 0x0000000080402010, 0x1010101010101010, 0),
  (0x0000010204081020, 0x0000000000804020, 0x2020202020202020, 0),
  (0x0001020408102040, 0x0000000000008040, 0x4040404040404040, 0),
  (0x0102040810204080, 0x0000000000000080, 0x8080808080808080, 0),
  (0x0000000000000102, 0x4020100804020100, 0x0101010101010101, 0),
  (0x0000000000010204, 0x8040201008040201, 0x0202020202020202, 0),
  (0x0000000001020408, 0x0080402010080402, 0x0404040404040404, 0),
  (0x0000000102040810, 0x0000804020100804, 0x0808080808080808, 0),
  (0x0000010204081020, 0x0000008040201008, 0x1010101010101010, 0),
  (0x0001020408102040, 0x0000000080402010, 0x2020202020202020, 0),
  (0x0102040810204080, 0x0000000000804020, 0x4040404040404040, 0),
  (0x0204081020408000, 0x0000000000008040, 0x8080808080808080, 0),
  (0x0000000000010204, 0x2010080402010000, 0x0101010101010101, 0),
  (0x0000000001020408, 0x4020100804020100, 0x0202020202020202, 0),
  (0x0000000102040810, 0x8040201008040201, 0x0404040404040404, 0),
  (0x0000010204081020, 0x0080402010080402, 0x0808080808080808, 0),
  (0x0001020408102040, 0x0000804020100804, 0x1010101010101010, 0),
  (0x0102040810204080, 0x0000008040201008, 0x2020202020202020, 0),
  (0x0204081020408000, 0x0000000080402010, 0x4040404040404040, 0),
  (0x0408102040800000, 0x0000000000804020, 0x8080808080808080, 0),
  (0x0000000001020408, 0x1008040201000000, 0x0101010101010101, 0),
  (0x0000000102040810, 0x2010080402010000, 0x0202020202020202, 0),
  (0x0000010204081020, 0x4020100804020100, 0x0404040404040404, 0),
  (0x0001020408102040, 0x8040201008040201, 0x0808080808080808, 0),
  (0x0102040810204080, 0x0080402010080402, 0x1010101010101010, 0),
  (0x0204081020408000, 0x0000804020100804, 0x2020202020202020, 0),
  (0x0408102040800000, 0x0000008040201008, 0x4040404040404040, 0),
  (0x0810204080000000, 0x0000000080402010, 0x8080808080808080, 0),
  (0x0000000102040810, 0x0804020100000000, 0x0101010101010101, 0),
  (0x0000010204081020, 0x1008040201000000, 0x0202020202020202, 0),
  (0x0001020408102040, 0x2010080402010000, 0x0404040404040404, 0),
  (0x0102040810204080, 0x4020100804020100, 0x0808080808080808, 0),
  (0x0204081020408000, 0x8040201008040201, 0x1010101010101010, 0),
  (0x0408102040800000, 0x0080402010080402, 0x2020202020202020, 0),
  (0x0810204080000000, 0x0000804020100804, 0x4040404040404040, 0),
  (0x1020408000000000, 0x0000008040201008, 0x8080808080808080, 0),
  (0x0000010204081020, 0x0402010000000000, 0x0101010101010101, 0),
  (0x0001020408102040, 0x0804020100000000, 0x0202020202020202, 0),
  (0x0102040810204080, 0x1008040201000000, 0x0404040404040404, 0),
  (0x0204081020408000, 0x2010080402010000, 0x0808080808080808, 0),
  (0x0408102040800000, 0x4020100804020100, 0x1010101010101010, 0),
  (0x0810204080000000, 0x8040201008040201, 0x2020202020202020, 0),
  (0x1020408000000000, 0x0080402010080402, 0x4040404040404040, 0),
  (0x2040800000000000, 0x0000804020100804, 0x8080808080808080, 0),
  (0x0001020408102040, 0x0201000000000000, 0x0101010101010101, 0),
  (0x0102040810204080, 0x0402010000000000, 0x0202020202020202, 0),
  (0x0204081020408000, 0x0804020100000000, 0x0404040404040404, 0),
  (0x0408102040800000, 0x1008040201000000, 0x0808080808080808, 0),
  (0x0810204080000000, 0x2010080402010000, 0x1010101010101010, 0),
  (0x1020408000000000, 0x4020100804020100, 0x2020202020202020, 0),
  (0x2040800000000000, 0x8040201008040201, 0x4040404040404040, 0),
  (0x4080000000000000, 0x0080402010080402, 0x8080808080808080, 0),
  (0x0102040810204080, 0x0100000000000000, 0x0101010101010101, 0),
  (0x0204081020408000, 0x0201000000000000, 0x0202020202020202, 0),
  (0x0408102040800000, 0x0402010000000000, 0x0404040404040404, 0),
  (0x0810204080000000, 0x0804020100000000, 0x0808080808080808, 0),
  (0x1020408000000000, 0x1008040201000000, 0x1010101010101010, 0),
  (0x2040800000000000, 0x2010080402010000, 0x2020202020202020, 0),
  (0x4080000000000000, 0x4020100804020100, 0x4040404040404040, 0),
  (0x8000000000000000, 0x8040201008040201, 0x8080808080808080, 0)]"



section \<open>Bit primitives\<close>

text \<open>
  \<^verbatim>\<open>_lzcnt_u64\<close>: the number of leading zero bits, 64 for the operand 0. The scan
  starts at bit 63 and walks down.
\<close>

fun lzcnt_from :: "nat \<Rightarrow> u64 \<Rightarrow> nat" where
  "lzcnt_from 0 x = 0"
| "lzcnt_from (Suc n) x = (if bit x n then 0 else Suc (lzcnt_from n x))"

definition lzcnt64 :: "u64 \<Rightarrow> nat" where
  "lzcnt64 x = lzcnt_from 64 x"

text \<open>
  The macro \<^verbatim>\<open>count_opp_reverse(O,masko,maskr)\<close> has two expansions. With \<^verbatim>\<open>__LZCNT__\<close>
  on x86-64 it is \<^verbatim>\<open>lzcnt64(~(O) & (maskr))\<close> and its argument \<^verbatim>\<open>masko\<close> is dropped (the
  table \<^verbatim>\<open>masko\<close> is not compiled). Otherwise it is
  \<^verbatim>\<open>__builtin_clzll(((O) & (masko)) ^ (maskr))\<close>. The builtin counts the leading zeros of a
  non-zero operand; its result for 0 is undefined, and it does receive 0 where a square has
  no ray in a direction (\<^verbatim>\<open>maskr[pos][i]\<close> is 0). That result is the parameter \<open>z\<close>: nothing is
  assumed about it.
\<close>

definition count_opp_reverse :: "u64 \<Rightarrow> u64 \<Rightarrow> nat" where
  "count_opp_reverse Opp mr = lzcnt64 (NOT Opp AND mr)"

definition builtin_clzll :: "nat \<Rightarrow> u64 \<Rightarrow> nat" where
  "builtin_clzll z x = (if x = 0 then z else lzcnt_from 64 x)"

definition count_opp_reverse_clz :: "nat \<Rightarrow> u64 \<Rightarrow> u64 \<Rightarrow> u64 \<Rightarrow> nat" where
  "count_opp_reverse_clz z Opp mo mr = builtin_clzll z ((Opp AND mo) XOR mr)"

text \<open>
  \<^verbatim>\<open>x >> n\<close> on \<^verbatim>\<open>unsigned long long\<close>. The count is 64 when \<^verbatim>\<open>lzcnt64\<close> is given 0, and
  is \<open>z\<close> when the builtin is given 0. C leaves a shift by 64 or more undefined; the x86-64
  shift instructions take the count modulo 64, which is what is modelled.
\<close>

definition shr64 :: "u64 \<Rightarrow> nat \<Rightarrow> u64" where
  "shr64 x n = drop_bit (n mod 64) x"

section \<open>SSE2 operations on \<^verbatim>\<open>__v2di\<close>\<close>

definition mm_set1_epi64x :: "u64 \<Rightarrow> v2di" where
  "mm_set1_epi64x a = (a, a)"

definition v2_not :: "v2di \<Rightarrow> v2di" where
  "v2_not a = (NOT (fst a), NOT (snd a))"

definition v2_and :: "v2di \<Rightarrow> v2di \<Rightarrow> v2di" where
  "v2_and a b = (fst a AND fst b, snd a AND snd b)"

definition v2_or :: "v2di \<Rightarrow> v2di \<Rightarrow> v2di" where
  "v2_or a b = (fst a OR fst b, snd a OR snd b)"

definition v2_sub :: "v2di \<Rightarrow> v2di \<Rightarrow> v2di" where
  "v2_sub a b = (fst a - fst b, snd a - snd b)"

definition minusone :: v2di where
  "minusone = (- 1, - 1)"

text \<open>The four 32-bit elements of a vector, element 0 first, and the vector made of four.\<close>

definition epi32 :: "v2di \<Rightarrow> nat \<Rightarrow> u32" where
  "epi32 a i = ucast (drop_bit (32 * (i mod 2)) (if i div 2 = 0 then fst a else snd a))"

definition set_epi32 :: "(nat \<Rightarrow> u32) \<Rightarrow> v2di" where
  "set_epi32 e = (push_bit 32 (ucast (e 1)) OR ucast (e 0), push_bit 32 (ucast (e 3)) OR ucast (e 2))"

text \<open>\<^verbatim>\<open>_mm_shuffle_epi32(a, imm)\<close>: element \<open>i\<close> of the result is the element of \<open>a\<close> selected
  by bits \<open>2i+1\<close> and \<open>2i\<close> of the immediate.\<close>

definition mm_shuffle_epi32 :: "v2di \<Rightarrow> nat \<Rightarrow> v2di" where
  "mm_shuffle_epi32 a imm = set_epi32 (\<lambda>i. epi32 a ((imm div 4 ^ i) mod 4))"

text \<open>\<^verbatim>\<open>_mm_cmpeq_epi32\<close>: all ones in an element where the operands agree, else 0.\<close>

definition mm_cmpeq_epi32 :: "v2di \<Rightarrow> v2di \<Rightarrow> v2di" where
  "mm_cmpeq_epi32 a b = set_epi32 (\<lambda>i. if epi32 a i = epi32 b i then - 1 else 0)"

definition SWAP64 :: nat where
  "SWAP64 = 0x4e"

definition SWAP32 :: nat where
  "SWAP32 = 0xb1"

definition flipmask :: "v2di \<Rightarrow> v2di" where
  "flipmask outflank = mm_cmpeq_epi32 (mm_shuffle_epi32 outflank SWAP32) outflank"

section \<open>\<^verbatim>\<open>flip\<close>\<close>

text \<open>
  The function has one body; the macro gives it two readings. \<open>flip\<close> is the build with
  \<^verbatim>\<open>__LZCNT__\<close>, \<open>flip_clz z\<close> the build without it. The vector expressions work lane by lane
  on 64-bit integers; subtracting \<^verbatim>\<open>minusone\<close> adds 1. The parameter \<^verbatim>\<open>O\<close> is \<open>Opp\<close> and the
  local \<^verbatim>\<open>OO\<close> is \<open>OO'\<close>, the source's names being taken in HOL.
\<close>

definition flip :: "int \<Rightarrow> u64 \<Rightarrow> u64 \<Rightarrow> u64 option" where
  "flip pos P Opp = do {
     (mr1, mr7, mr8, mr9) \<leftarrow> idx maskr pos;
     (ml17, ml89) \<leftarrow> idx maskl pos;
     let outflankr1 = shr64 0x8000000000000000 (count_opp_reverse Opp mr1) AND P;
     let flipped = (- outflankr1 * 2) AND mr1;
     let outflankr7 = shr64 0x8000000000000000 (count_opp_reverse Opp mr7) AND P;
     let flipped = flipped OR ((- outflankr7 * 2) AND mr7);
     let outflankr8 = shr64 0x8000000000000000 (count_opp_reverse Opp mr8) AND P;
     let flipped = flipped OR ((- outflankr8 * 2) AND mr8);
     let outflankr9 = shr64 0x8000000000000000 (count_opp_reverse Opp mr9) AND P;
     let flipped = flipped OR ((- outflankr9 * 2) AND mr9);
     let PP = mm_set1_epi64x P;
     let OO' = mm_set1_epi64x Opp;
     let outflank17 = v2_and (v2_and (v2_not ml17) (v2_sub (v2_or OO' ml17) minusone)) PP;
     let outflank89 = v2_and (v2_and (v2_not ml89) (v2_sub (v2_or OO' ml89) minusone)) PP;
     let outflank17 = v2_and (v2_not ml17) (v2_sub outflank17 (v2_sub (flipmask outflank17) minusone));
     let outflank89 = v2_and (v2_not ml89) (v2_sub outflank89 (v2_sub (flipmask outflank89) minusone));
     let outflank17 = v2_or outflank17 outflank89;
     let outflank17 = v2_or outflank17 (mm_shuffle_epi32 outflank17 SWAP64);
     Some (flipped OR fst outflank17)
   }"

definition flip_clz :: "nat \<Rightarrow> int \<Rightarrow> u64 \<Rightarrow> u64 \<Rightarrow> u64 option" where
  "flip_clz z pos P Opp = do {
     (mo1, mo7, mo8, mo9) \<leftarrow> idx masko pos;
     (mr1, mr7, mr8, mr9) \<leftarrow> idx maskr pos;
     (ml17, ml89) \<leftarrow> idx maskl pos;
     let outflankr1 = shr64 0x8000000000000000 (count_opp_reverse_clz z Opp mo1 mr1) AND P;
     let flipped = (- outflankr1 * 2) AND mr1;
     let outflankr7 = shr64 0x8000000000000000 (count_opp_reverse_clz z Opp mo7 mr7) AND P;
     let flipped = flipped OR ((- outflankr7 * 2) AND mr7);
     let outflankr8 = shr64 0x8000000000000000 (count_opp_reverse_clz z Opp mo8 mr8) AND P;
     let flipped = flipped OR ((- outflankr8 * 2) AND mr8);
     let outflankr9 = shr64 0x8000000000000000 (count_opp_reverse_clz z Opp mo9 mr9) AND P;
     let flipped = flipped OR ((- outflankr9 * 2) AND mr9);
     let PP = mm_set1_epi64x P;
     let OO' = mm_set1_epi64x Opp;
     let outflank17 = v2_and (v2_and (v2_not ml17) (v2_sub (v2_or OO' ml17) minusone)) PP;
     let outflank89 = v2_and (v2_and (v2_not ml89) (v2_sub (v2_or OO' ml89) minusone)) PP;
     let outflank17 = v2_and (v2_not ml17) (v2_sub outflank17 (v2_sub (flipmask outflank17) minusone));
     let outflank89 = v2_and (v2_not ml89) (v2_sub outflank89 (v2_sub (flipmask outflank89) minusone));
     let outflank17 = v2_or outflank17 outflank89;
     let outflank17 = v2_or outflank17 (mm_shuffle_epi32 outflank17 SWAP64);
     Some (flipped OR fst outflank17)
   }"

section \<open>Vector operations of \<^verbatim>\<open>last_flip\<close>\<close>

definition byte_of :: "u64 \<Rightarrow> nat \<Rightarrow> u8" where
  "byte_of w j = ucast (drop_bit (8 * j) w)"

text \<open>\<^verbatim>\<open>pcmpeqb\<close> on one 64-bit lane: every bit of byte \<open>j\<close> of the result is set where
  byte \<open>j\<close> of the operands agree.\<close>

definition cmpeq_epi8_lane :: "u64 \<Rightarrow> u64 \<Rightarrow> u64" where
  "cmpeq_epi8_lane a b =
     horner_sum of_bool 2 (map (\<lambda>n. byte_of a (n div 8) = byte_of b (n div 8)) [0..<64])"

text \<open>\<^verbatim>\<open>pmovmskb\<close> on one 64-bit lane: bit \<open>j\<close> of the result is the top bit of byte \<open>j\<close>.\<close>

definition movemask_epi8_lane :: "u64 \<Rightarrow> u32" where
  "movemask_epi8_lane a = horner_sum of_bool 2 (map (\<lambda>j. bit a (8 * j + 7)) [0..<8])"

definition mm_cvtsi64_si128 :: "u64 \<Rightarrow> v2di" where
  "mm_cvtsi64_si128 a = (a, 0)"

definition mm256_broadcastq_epi64 :: "v2di \<Rightarrow> v4di" where
  "mm256_broadcastq_epi64 a = (fst a, fst a, fst a, fst a)"

fun mm256_and_si256 :: "v4di \<Rightarrow> v4di \<Rightarrow> v4di" where
  "mm256_and_si256 (a0, a1, a2, a3) (b0, b1, b2, b3) = (a0 AND b0, a1 AND b1, a2 AND b2, a3 AND b3)"

definition mm256_setzero_si256 :: v4di where
  "mm256_setzero_si256 = (0, 0, 0, 0)"

fun mm256_cmpeq_epi8 :: "v4di \<Rightarrow> v4di \<Rightarrow> v4di" where
  "mm256_cmpeq_epi8 (a0, a1, a2, a3) (b0, b1, b2, b3) =
     (cmpeq_epi8_lane a0 b0, cmpeq_epi8_lane a1 b1, cmpeq_epi8_lane a2 b2, cmpeq_epi8_lane a3 b3)"

fun mm256_movemask_epi8 :: "v4di \<Rightarrow> u32" where
  "mm256_movemask_epi8 (a0, a1, a2, a3) =
     movemask_epi8_lane a0 OR push_bit 8 (movemask_epi8_lane a1)
       OR push_bit 16 (movemask_epi8_lane a2) OR push_bit 24 (movemask_epi8_lane a3)"

section \<open>\<^verbatim>\<open>last_flip\<close>\<close>

definition COUNT_FLIP_at :: "int \<Rightarrow> int \<Rightarrow> u8 option" where
  "COUNT_FLIP_at i j = do { row \<leftarrow> idx COUNT_FLIP i; idx row j }"

text \<open>The branch under \<^verbatim>\<open>#ifdef __AVX2__\<close>. \<open>t\<close> is an \<^verbatim>\<open>unsigned int\<close>, \<open>n_flipped\<close> an
  \<^verbatim>\<open>unsigned char\<close> whose additions wrap at 256, and the result is converted to \<^verbatim>\<open>int\<close>.\<close>

definition last_flip_avx2 :: "int \<Rightarrow> u64 \<Rightarrow> int option" where
  "last_flip_avx2 pos P = do {
     let x = pos AND 7;
     let y = drop_bit 3 pos;
     let P0 = mm_cvtsi64_si128 P;
     m \<leftarrow> idx mask_d_v pos;
     let t = NOT (mm256_movemask_epi8 (mm256_cmpeq_epi8
               (mm256_and_si256 (mm256_broadcastq_epi64 P0) m) mm256_setzero_si256));
     n_flipped \<leftarrow> COUNT_FLIP_at y (uint (drop_bit 16 t));
     c \<leftarrow> COUNT_FLIP_at y (uint (ucast (drop_bit 8 t) :: u8));
     let n_flipped = n_flipped + c;
     c \<leftarrow> COUNT_FLIP_at y (uint (ucast t :: u8));
     let n_flipped = n_flipped + c;
     c \<leftarrow> COUNT_FLIP_at x (uint (ucast (drop_bit (nat (y * 8)) P) :: u8));
     let n_flipped = n_flipped + c;
     Some (uint n_flipped)
   }"

text \<open>
  The branch under \<^verbatim>\<open>#else\<close> reads \<^verbatim>\<open>mask_d\<close>, whose declaration is not well formed (see
  the tables): a build without AVX2 stops at that declaration, and the branch is a function
  of no program. It is not modelled.
\<close>

section \<open>The generation rule of the count-flip table\<close>

text \<open>
  The rule as the specification words it: from position \<open>k\<close> of an 8-cell line, in one
  direction, the cells are visited outward; the run of cells whose pattern bit is 0 counts
  when a cell whose bit is 1 ends it before the boundary, and counts 0 otherwise. The table
  value is twice the sum over both directions.
\<close>

definition line_run :: "nat \<Rightarrow> nat list \<Rightarrow> nat" where
  "line_run pattern cells =
     (let run = takeWhile (\<lambda>c. \<not> bit pattern c) cells
      in if length run < length cells then length run else 0)"

definition count_flip_rule :: "nat \<Rightarrow> nat \<Rightarrow> nat" where
  "count_flip_rule k pattern =
     2 * (line_run pattern [Suc k..<8] + line_run pattern (rev [0..<k]))"

section \<open>The flip rule of the specification\<close>

text \<open>
  Squares are row-major: square \<open>s\<close> is column \<open>s mod 8\<close> of row \<open>s div 8\<close>. A ray is the
  list of the squares met from a square in one of the 8 directions, nearest first, up to
  the edge of the board; its squares are the ray's boundary mask.
\<close>

fun ray :: "nat \<Rightarrow> int \<Rightarrow> int \<Rightarrow> int \<times> int \<Rightarrow> nat list" where
  "ray 0 x y d = []"
| "ray (Suc n) x y d =
     (let x' = x + fst d; y' = y + snd d
      in if 0 \<le> x' \<and> x' < 8 \<and> 0 \<le> y' \<and> y' < 8
         then nat (8 * y' + x') # ray n x' y' d else [])"

definition directions :: "(int \<times> int) list" where
  "directions = [(1, 0), (- 1, 0), (0, 1), (0, - 1), (1, 1), (- 1, - 1), (1, - 1), (- 1, 1)]"

definition squares_mask :: "nat list \<Rightarrow> u64" where
  "squares_mask cs = fold (\<lambda>c w. w OR push_bit c 1) cs 0"

text \<open>
  One ray: the run of opponent squares next to the played square flips when it is not
  empty and the square after it, still on the ray, holds a player disc.
\<close>

definition ray_flip :: "u64 \<Rightarrow> u64 \<Rightarrow> nat list \<Rightarrow> u64" where
  "ray_flip P Opp cells =
     (let run = takeWhile (bit Opp) cells; rest = dropWhile (bit Opp) cells
      in if run \<noteq> [] \<and> rest \<noteq> [] \<and> bit P (hd rest) then squares_mask run else 0)"

definition flip_spec :: "int \<Rightarrow> u64 \<Rightarrow> u64 \<Rightarrow> u64" where
  "flip_spec pos P Opp =
     fold (\<lambda>d w. w OR ray_flip P Opp (ray 7 (pos mod 8) (pos div 8) d)) directions 0"

text \<open>
  Modelled from the spec: \<^verbatim>\<open>bit_count\<close>, the population count of a 64-bit value. It is
  declared in \<^verbatim>\<open>bit.h\<close> (a macro over a compiler builtin, or an external function) and is
  not defined in the two source files.
\<close>

definition bit_count :: "u64 \<Rightarrow> int" where
  "bit_count b = int (length (filter (bit b) [0..<64]))"

section \<open>The rays of \<^verbatim>\<open>flip\<close>, one at a time\<close>

text \<open>
  The contribution of one ray towards the low-order end, as computed from the mask
  \<^verbatim>\<open>maskr[pos][i]\<close>, and of one ray towards the high-order end, as computed in one 64-bit
  lane from the stored complement \<^verbatim>\<open>maskl[pos][i].ull[j]\<close>; \<open>fm\<close> is the lane of \<^verbatim>\<open>flipmask\<close>.
\<close>

definition right_flip :: "u64 \<Rightarrow> u64 \<Rightarrow> u64 \<Rightarrow> u64" where
  "right_flip P Opp mr =
     (- (shr64 0x8000000000000000 (count_opp_reverse Opp mr) AND P) * 2) AND mr"

definition right_flip_clz :: "nat \<Rightarrow> u64 \<Rightarrow> u64 \<Rightarrow> u64 \<Rightarrow> u64 \<Rightarrow> u64" where
  "right_flip_clz z P Opp mo mr =
     (- (shr64 0x8000000000000000 (count_opp_reverse_clz z Opp mo mr) AND P) * 2) AND mr"

definition left_flip :: "u64 \<Rightarrow> u64 \<Rightarrow> u64 \<Rightarrow> u64" where
  "left_flip P Opp ml =
     (let outflank = NOT ml AND ((Opp OR ml) - (- 1)) AND P;
          fm = (if (ucast (drop_bit 32 outflank) :: u32) = ucast outflank then - 1 else 0)
      in NOT ml AND (outflank - (fm - (- 1))))"

section \<open>The four line patterns of \<^verbatim>\<open>last_flip\<close>\<close>

text \<open>
  \<open>nonzero_bytes a\<close> has bit \<open>j\<close> set where byte \<open>j\<close> of \<open>a\<close> is not 0: it is what the
  complement of the byte mask of a comparison with zero extracts. \<open>line_counts\<close> is the sum of
  the four table reads on the patterns of the column, the two diagonals and the row, in the
  order of the source, for a row of \<^verbatim>\<open>mask_d_v\<close> whose fourth lane is 0; \<open>last_flip_avx2\<close> is
  shown to compute it.
\<close>

definition nonzero_bytes :: "u64 \<Rightarrow> u8" where
  "nonzero_bytes a = horner_sum of_bool 2 (map (\<lambda>j. byte_of a j \<noteq> 0) [0..<8])"

definition line_counts :: "nat \<Rightarrow> u64 \<Rightarrow> int option" where
  "line_counts n P = (case mask_d_v ! n of (d7, d9, col, none) \<Rightarrow> do {
     n_flipped \<leftarrow> COUNT_FLIP_at (int (n div 8)) (uint (nonzero_bytes (P AND col)));
     c \<leftarrow> COUNT_FLIP_at (int (n div 8)) (uint (nonzero_bytes (P AND d9)));
     let n_flipped = n_flipped + c;
     c \<leftarrow> COUNT_FLIP_at (int (n div 8)) (uint (nonzero_bytes (P AND d7)));
     let n_flipped = n_flipped + c;
     c \<leftarrow> COUNT_FLIP_at (int (n mod 8)) (uint (ucast (drop_bit (8 * (n div 8)) P) :: u8));
     let n_flipped = n_flipped + c;
     Some (uint n_flipped)
   })"

section \<open>Masks that describe a ray\<close>

text \<open>
  A mask of \<^verbatim>\<open>maskr\<close> describes a ray when the ray runs towards the low-order end inside
  the board and the mask is the set of its squares; an element of \<^verbatim>\<open>maskl\<close> describes a
  ray when the ray runs towards the high-order end and the element is the complement of the
  set of its squares.
\<close>

definition ray_low :: "u64 \<Rightarrow> nat list \<Rightarrow> bool" where
  "ray_low mr cells \<longleftrightarrow> sorted_wrt (>) cells \<and> list_all (\<lambda>c. c < 64) cells \<and> mr = squares_mask cells"

definition ray_high :: "u64 \<Rightarrow> nat list \<Rightarrow> bool" where
  "ray_high ml cells \<longleftrightarrow>
     sorted_wrt (<) cells \<and> list_all (\<lambda>c. c < 64) cells \<and> ml = NOT (squares_mask cells)"


section \<open>Leading zeros, shifts and increments\<close>

lemma lzcnt_from_le: "lzcnt_from n x \<le> n"
  by (induction n) simp_all

lemma lzcnt_from_full: "lzcnt_from n x = n \<longleftrightarrow> (\<forall>i<n. \<not> bit x i)"
proof (induction n)
  case 0
  show ?case by simp
next
  case (Suc n)
  show ?case
    using Suc.IH lzcnt_from_le [of n x] by (auto simp: less_Suc_eq)
qed

lemma lzcnt_from_hit:
  "lzcnt_from n x < n \<Longrightarrow>
     bit x (n - Suc (lzcnt_from n x)) \<and> (\<forall>i. n - Suc (lzcnt_from n x) < i \<and> i < n \<longrightarrow> \<not> bit x i)"
proof (induction n)
  case 0
  then show ?case by simp
next
  case (Suc n)
  show ?case
  proof (cases "bit x n")
    case True
    then show ?thesis by auto
  next
    case False
    with Suc.prems have lt: "lzcnt_from n x < n" by simp
    from Suc.IH [OF lt] False show ?thesis
      by (auto simp: less_Suc_eq Suc_diff_Suc lt)
  qed
qed

lemma exp_and_word: "(2::u64) ^ h AND P = (if bit P h then 2 ^ h else 0)"
  by (rule bit_eqI) (auto simp: bit_simps)

lemma drop_bit_top: "k < 64 \<Longrightarrow> drop_bit k (0x8000000000000000 :: u64) = 2 ^ (63 - k)"
proof -
  assume k: "k < 64"
  show ?thesis
    using drop_bit_exp_eq [of k 63, where ?'a = u64] k by simp
qed


lemma bit_neg_exp: "bit (- ((2::u64) ^ m)) n \<longleftrightarrow> n < 64 \<and> m \<le> n"
  by (simp only: bit_minus_exp_iff) simp

lemma one_bit_halves: "n < 64 \<Longrightarrow> (ucast (drop_bit 32 ((2::u64) ^ n)) :: u32) \<noteq> ucast ((2::u64) ^ n)"
proof
  assume n: "n < 64" and eq: "(ucast (drop_bit 32 ((2::u64) ^ n)) :: u32) = ucast ((2::u64) ^ n)"
  show False
  proof (cases "n < 32")
    case True
    have "bit (ucast ((2::u64) ^ n) :: u32) n" using True n by (simp add: bit_simps)
    moreover have "\<not> bit (ucast (drop_bit 32 ((2::u64) ^ n)) :: u32) n" using True n by (simp add: bit_simps)
    ultimately show False using eq by simp
  next
    case False
    have "bit (ucast (drop_bit 32 ((2::u64) ^ n)) :: u32) (n - 32)" using False n by (simp add: bit_simps)
    moreover have "\<not> bit (ucast ((2::u64) ^ n) :: u32) (n - 32)" using False n by (simp add: bit_simps)
    ultimately show False using eq by simp
  qed
qed

text \<open>Incrementing a word sets its lowest clear bit and clears the bits below.\<close>

lemma word_inc_bits:
  fixes w :: u64
  assumes low: "\<forall>i<j. bit w i" and clr: "\<not> bit w j" and j: "j < 64"
  shows "bit (w + 1) n \<longleftrightarrow> n = j \<or> (j < n \<and> bit w n)"
proof -
  define a where "a = w AND NOT (mask (Suc j))"
  have w: "w = a + mask j"
  proof -
    have "a + mask j = a OR mask j"
      by (rule disjunctive_add_eq_or) (rule bit_eqI, auto simp: a_def bit_simps)
    also have "\<dots> = w"
      using low clr by (intro bit_eqI) (auto simp: a_def bit_simps less_Suc_eq dest: bit_imp_le_length)
    finally show ?thesis by simp
  qed
  have "w + 1 = a + 2 ^ j"
    by (subst w) (simp add: mask_eq_exp_minus_1)
  also have "\<dots> = a OR 2 ^ j"
    by (rule disjunctive_add_eq_or) (rule bit_eqI, auto simp: a_def bit_simps)
  finally have "w + 1 = a OR 2 ^ j" .
  then show ?thesis
    using j by (auto simp: a_def bit_simps less_Suc_eq dest: bit_imp_le_length)
qed

lemma word_inc_full:
  fixes w :: u64
  assumes "\<forall>i<64. bit w i"
  shows "w + 1 = 0"
proof -
  have "w = - 1" using assms by (intro bit_eqI) (simp add: bit_simps)
  then show ?thesis by simp
qed


lemma right_ray_subset:
  "((- (shr64 0x8000000000000000 (count_opp_reverse Opp mr) AND P) * 2) AND mr) AND NOT Opp = 0"
proof -
  define x where "x = NOT Opp AND mr"
  define k where "k = lzcnt64 x"
  have kle: "k \<le> 64" by (simp add: k_def lzcnt64_def lzcnt_from_le)
  show ?thesis
  proof (cases "k = 64")
    case True
    then have "\<forall>i<64. \<not> bit x i"
      using lzcnt_from_full [of 64 x] by (simp add: k_def lzcnt64_def)
    then have "x = 0"
      by (intro bit_eqI) (simp add: bit_simps)
    then have "mr AND NOT Opp = 0" by (simp add: x_def and.commute)
    then show ?thesis by (simp add: and.assoc)
  next
    case False
    with kle have klt: "k < 64" by simp
    define h where "h = 63 - k"
    have hk: "64 - Suc k = h" by (simp add: h_def)
    have above: "\<forall>i. h < i \<and> i < 64 \<longrightarrow> \<not> bit x i"
      using lzcnt_from_hit [of 64 x] klt hk by (simp add: k_def lzcnt64_def)
    have sh: "shr64 0x8000000000000000 (count_opp_reverse Opp mr) = 2 ^ h"
      using klt by (simp add: shr64_def count_opp_reverse_def x_def [symmetric] k_def [symmetric] drop_bit_top h_def)
    show ?thesis
    proof (cases "bit P h")
      case False
      then show ?thesis by (simp add: sh exp_and_word)
    next
      case True
      have "(- ((2::u64) ^ Suc h) AND mr) AND NOT Opp = 0"
      proof (rule bit_eqI)
        fix n
        assume "possible_bit TYPE(u64) n"
        then have n: "n < 64" by simp
        show "bit ((- ((2::u64) ^ Suc h) AND mr) AND NOT Opp) n = bit (0::u64) n"
          using above n by (auto simp add: bit_and_iff bit_not_iff bit_neg_exp x_def Suc_le_eq simp del: power_Suc)
      qed
      then show ?thesis using True by (simp add: sh exp_and_word mult.commute)
    qed
  qed
qed

lemma right_ray_subset_clz:
  "((- (shr64 0x8000000000000000 (count_opp_reverse_clz z Opp mo mr) AND P) * 2) AND mr) AND NOT Opp = 0"
proof -
  define x where "x = (Opp AND mo) XOR mr"
  show ?thesis
  proof (cases "x = 0")
    case True
    have "mr AND NOT Opp = 0"
    proof (rule bit_eqI)
      fix n
      have "bit x n = bit (0::u64) n" using True by simp
      then show "bit (mr AND NOT Opp) n = bit (0::u64) n"
        by (auto simp add: x_def bit_and_iff bit_xor_iff bit_not_iff)
    qed
    then show ?thesis by (simp add: and.assoc)
  next
    case False
    define k where "k = lzcnt_from 64 x"
    have "\<not> (\<forall>i<64. \<not> bit x i)"
    proof
      assume "\<forall>i<64. \<not> bit x i"
      then have "x = 0" by (intro bit_eqI) (simp add: bit_simps)
      with False show False by simp
    qed
    then have "k \<noteq> 64" using lzcnt_from_full [of 64 x] by (simp add: k_def)
    with lzcnt_from_le [of 64 x] have klt: "k < 64" by (simp add: k_def)
    define h where "h = 63 - k"
    have hk: "64 - Suc k = h" by (simp add: h_def)
    have above: "\<forall>i. h < i \<and> i < 64 \<longrightarrow> \<not> bit x i"
      using lzcnt_from_hit [of 64 x] klt hk by (simp add: k_def)
    have sh: "shr64 0x8000000000000000 (count_opp_reverse_clz z Opp mo mr) = 2 ^ h"
      using klt False
      by (simp add: shr64_def count_opp_reverse_clz_def builtin_clzll_def x_def [symmetric]
          k_def [symmetric] drop_bit_top h_def)
    show ?thesis
    proof (cases "bit P h")
      case False
      then show ?thesis by (simp add: sh exp_and_word)
    next
      case True
      have "(- ((2::u64) ^ Suc h) AND mr) AND NOT Opp = 0"
      proof (rule bit_eqI)
        fix n
        assume "possible_bit TYPE(u64) n"
        then have n: "n < 64" by simp
        show "bit ((- ((2::u64) ^ Suc h) AND mr) AND NOT Opp) n = bit (0::u64) n"
          using above n
          by (auto simp add: bit_and_iff bit_not_iff bit_xor_iff bit_neg_exp x_def Suc_le_eq
              simp del: power_Suc)
      qed
      then show ?thesis using True by (simp add: sh exp_and_word mult.commute)
    qed
  qed
qed


lemma left_lane_subset:
  fixes M :: u64
  assumes disj: "P AND Opp = 0"
  defines "outflank \<equiv> NOT M AND ((Opp OR M) - (- 1)) AND P"
  defines "fm \<equiv> (if (ucast (drop_bit 32 outflank) :: u32) = ucast outflank then - 1 else 0 :: u64)"
  shows "(NOT M AND (outflank - (fm - (- 1)))) AND NOT Opp = 0"
proof -
  define w where "w = Opp OR M"
  have PO: "\<not> (bit P n \<and> bit Opp n)" for n
  proof -
    have "bit (P AND Opp) n = bit (0::u64) n" using disj by simp
    then show ?thesis by (simp add: bit_and_iff)
  qed
  show ?thesis
  proof (cases "\<forall>i<64. bit w i")
    case True
    then have "outflank = 0"
      by (simp add: outflank_def w_def [symmetric] word_inc_full)
    then show ?thesis by (simp add: fm_def)
  next
    case False
    define j where "j = (LEAST i. i < 64 \<and> \<not> bit w i)"
    from False have ex: "\<exists>i. i < 64 \<and> \<not> bit w i" by blast
    from LeastI_ex [OF ex] have j: "j < 64" and clr: "\<not> bit w j"
      by (simp_all add: j_def)
    have low: "\<forall>i<j. bit w i"
    proof (intro allI impI)
      fix i assume "i < j"
      with not_less_Least [of i "\<lambda>i. i < 64 \<and> \<not> bit w i"] j show "bit w i"
        by (simp add: j_def)
    qed
    note inc = word_inc_bits [OF low clr j]
    have of_bits: "bit outflank n \<longleftrightarrow> n = j \<and> bit P j" for n
      using clr PO [of n] j by (auto simp: outflank_def w_def [symmetric] bit_and_iff bit_not_iff inc, auto simp: w_def bit_or_iff)
    show ?thesis
    proof (cases "bit P j")
      case False
      then have "outflank = 0" by (intro bit_eqI) (simp add: of_bits)
      then show ?thesis by (simp add: fm_def)
    next
      case True
      then have o: "outflank = 2 ^ j"
        using j by (intro bit_eqI) (auto simp: of_bits bit_exp_iff)
      have fm0: "fm = 0" using one_bit_halves [OF j] by (simp add: fm_def o)
      have "(NOT M AND mask j) AND NOT Opp = 0"
        using low by (intro bit_eqI) (auto simp: bit_and_iff bit_not_iff bit_mask_iff w_def bit_or_iff)
      then show ?thesis by (simp add: fm0 o mask_eq_exp_minus_1)
    qed
  qed
qed

section \<open>Vector operations\<close>

lemma hi_lo_cat:
  "push_bit 32 (ucast (ucast (drop_bit 32 a) :: u32)) OR ucast (ucast a :: u32) = (a :: u64)"
proof (rule bit_eqI)
  fix n
  assume "possible_bit TYPE(u64) n"
  then have "n < 64" by simp
  then show "bit (push_bit 32 (ucast (ucast (drop_bit 32 a) :: u32)) OR ucast (ucast a :: u32) :: u64) n = bit a n" 
    by (cases "n < 32") (auto simp add: bit_simps)
qed

lemma ones_cat: "push_bit 32 (ucast (- 1 :: u32)) OR ucast (- 1 :: u32) = (- 1 :: u64)"
proof (rule bit_eqI)
  fix n
  assume "possible_bit TYPE(u64) n"
  then have "n < 64" by simp
  then show "bit (push_bit 32 (ucast (- 1 :: u32)) OR ucast (- 1 :: u32) :: u64) n = bit (- 1 :: u64) n" 
    by (cases "n < 32") (auto simp add: bit_simps)
qed

lemma SWAP64_selectors: "(0x4e::nat) div 4 ^ 0 mod 4 = 2" "(0x4e::nat) div 4 ^ 1 mod 4 = 3" "(0x4e::nat) div 4 ^ 2 mod 4 = 0" "(0x4e::nat) div 4 ^ 3 mod 4 = 1"
  by simp_all

lemma shuffle_SWAP64: "mm_shuffle_epi32 (a, b) SWAP64 = (b, a)"
  unfolding mm_shuffle_epi32_def set_epi32_def SWAP64_def SWAP64_selectors
  by (simp add: epi32_def hi_lo_cat)

lemma SWAP32_selectors: "(0xb1::nat) div 4 ^ 0 mod 4 = 1" "(0xb1::nat) div 4 ^ 1 mod 4 = 0"
    "(0xb1::nat) div 4 ^ 2 mod 4 = 3" "(0xb1::nat) div 4 ^ 3 mod 4 = 2"
  by simp_all

lemma epi32_simps:
  "epi32 (a, b) 0 = ucast a" "epi32 (a, b) 1 = ucast (drop_bit 32 a)"
  "epi32 (a, b) 2 = ucast b" "epi32 (a, b) 3 = ucast (drop_bit 32 b)"
  by (simp_all add: epi32_def)

lemma shuffle_SWAP32:
  "mm_shuffle_epi32 (a, b) SWAP32 =
     (push_bit 32 (ucast (ucast a :: u32)) OR ucast (ucast (drop_bit 32 a) :: u32),
      push_bit 32 (ucast (ucast b :: u32)) OR ucast (ucast (drop_bit 32 b) :: u32))"
  unfolding mm_shuffle_epi32_def set_epi32_def SWAP32_def SWAP32_selectors epi32_simps ..

lemma lo_swapped: "(ucast (push_bit 32 (ucast (l :: u32)) OR (ucast (h :: u32) :: u64)) :: u32) = h"
proof (rule bit_eqI)
  fix n
  assume "possible_bit TYPE(u32) n"
  then have "n < 32" by simp
  then show "bit (ucast (push_bit 32 (ucast l) OR (ucast h :: u64)) :: u32) n = bit h n"
    by (simp add: bit_simps)
qed

lemma hi_swapped: "(ucast (drop_bit 32 (push_bit 32 (ucast (l :: u32)) OR (ucast (h :: u32) :: u64))) :: u32) = l"
proof (rule bit_eqI)
  fix n
  assume "possible_bit TYPE(u32) n"
  then have "n < 32" by simp
  then show "bit (ucast (drop_bit 32 (push_bit 32 (ucast l) OR (ucast h :: u64))) :: u32) n = bit l n"
    by (auto simp add: bit_simps dest: bit_imp_le_length)
qed

lemma flipmask_lanes:
  "flipmask (a, b) =
     (if (ucast (drop_bit 32 a) :: u32) = ucast a then - 1 else 0,
      if (ucast (drop_bit 32 b) :: u32) = ucast b then - 1 else 0)"
proof -
  have "flipmask (a, b) =
      set_epi32 (\<lambda>i. if epi32 (mm_shuffle_epi32 (a, b) SWAP32) i = epi32 (a, b) i then - 1 else 0)"
    by (simp add: flipmask_def mm_cmpeq_epi32_def)
  also have "\<dots> =
     (push_bit 32 (ucast (if (ucast a :: u32) = ucast (drop_bit 32 a) then - 1 else 0 :: u32))
        OR ucast (if (ucast (drop_bit 32 a) :: u32) = ucast a then - 1 else 0 :: u32),
      push_bit 32 (ucast (if (ucast b :: u32) = ucast (drop_bit 32 b) then - 1 else 0 :: u32))
        OR ucast (if (ucast (drop_bit 32 b) :: u32) = ucast b then - 1 else 0 :: u32))"
    unfolding shuffle_SWAP32 set_epi32_def epi32_simps lo_swapped hi_swapped ..
  also have "\<dots> = (if (ucast (drop_bit 32 a) :: u32) = ucast a then - 1 else 0,
      if (ucast (drop_bit 32 b) :: u32) = ucast b then - 1 else 0)"
    by (cases "(ucast (drop_bit 32 a) :: u32) = ucast a"; cases "(ucast (drop_bit 32 b) :: u32) = ucast b")
       (simp_all add: ones_cat)
  finally show ?thesis .
qed

lemma flip_rays:
  "flip pos P Opp = do {
     (mr1, mr7, mr8, mr9) \<leftarrow> idx maskr pos;
     ((ml1, ml7), (ml8, ml9)) \<leftarrow> idx maskl pos;
     Some (right_flip P Opp mr1 OR right_flip P Opp mr7 OR right_flip P Opp mr8 OR right_flip P Opp mr9
           OR (left_flip P Opp ml1 OR left_flip P Opp ml8 OR (left_flip P Opp ml7 OR left_flip P Opp ml9)))
   }"
proof (cases "idx maskr pos")
  case None
  then show ?thesis by (simp add: flip_def)
next
  case r: (Some mr)
  obtain mr1 mr7 mr8 mr9 where mr: "mr = (mr1, mr7, mr8, mr9)" by (cases mr)
  show ?thesis
  proof (cases "idx maskl pos")
    case None
    then show ?thesis by (simp add: flip_def r mr)
  next
    case l: (Some ml)
    obtain ml1 ml7 ml8 ml9 where ml: "ml = ((ml1, ml7), (ml8, ml9))" by (cases ml) auto
    show ?thesis
      unfolding flip_def r l mr ml
      by (simp add: Let_def right_flip_def left_flip_def mm_set1_epi64x_def minusone_def
          v2_and_def v2_or_def v2_sub_def v2_not_def flipmask_lanes shuffle_SWAP64 ac_simps)
  qed
qed

lemma flip_clz_rays:
  "flip_clz z pos P Opp = do {
     (mo1, mo7, mo8, mo9) \<leftarrow> idx masko pos;
     (mr1, mr7, mr8, mr9) \<leftarrow> idx maskr pos;
     ((ml1, ml7), (ml8, ml9)) \<leftarrow> idx maskl pos;
     Some (right_flip_clz z P Opp mo1 mr1 OR right_flip_clz z P Opp mo7 mr7
           OR right_flip_clz z P Opp mo8 mr8 OR right_flip_clz z P Opp mo9 mr9
           OR (left_flip P Opp ml1 OR left_flip P Opp ml8 OR (left_flip P Opp ml7 OR left_flip P Opp ml9)))
   }"
proof (cases "idx masko pos")
  case None
  then show ?thesis by (simp add: flip_clz_def)
next
  case o: (Some mo)
  obtain mo1 mo7 mo8 mo9 where mo: "mo = (mo1, mo7, mo8, mo9)" by (cases mo)
  show ?thesis
  proof (cases "idx maskr pos")
    case None
    then show ?thesis by (simp add: flip_clz_def o mo)
  next
    case r: (Some mr)
    obtain mr1 mr7 mr8 mr9 where mr: "mr = (mr1, mr7, mr8, mr9)" by (cases mr)
    show ?thesis
    proof (cases "idx maskl pos")
      case None
      then show ?thesis by (simp add: flip_clz_def o mo r mr)
    next
      case l: (Some ml)
      obtain ml1 ml7 ml8 ml9 where ml: "ml = ((ml1, ml7), (ml8, ml9))" by (cases ml) auto
      show ?thesis
        unfolding flip_clz_def o r l mo mr ml
        by (simp add: Let_def right_flip_clz_def left_flip_def mm_set1_epi64x_def minusone_def
            v2_and_def v2_or_def v2_sub_def v2_not_def flipmask_lanes shuffle_SWAP64 ac_simps)
    qed
  qed
qed


section \<open>Table rows and bounds\<close>

lemma length_maskr: "length maskr = 64"
  by (simp add: maskr_def)

lemma length_maskl: "length maskl = 64"
  by (simp add: maskl_def)

lemma idx_Some: "0 \<le> i \<Longrightarrow> i < int (length xs) \<Longrightarrow> idx xs i = Some (xs ! nat i)"
  by (simp add: idx_def)

lemma maskr_3: "idx maskr 3 = Some (0x7, 0, 0, 0)"
  by (simp add: idx_def maskr_def)

lemma maskl_3:
  "idx maskl 3 = Some ((NOT 0xF0, NOT 0x1020400), (NOT 0x0808080808080800, NOT 0x8040201000))"
  by (simp add: idx_def maskl_def cnot_def)

lemma maskr_24: "idx maskr 24 = Some (0, 0x20408, 0x10101, 0)"
  by (simp add: idx_def maskr_def)

text \<open>The row mask of square 24 is written \<^verbatim>\<open>~0x00000000fe000000\<close>: an \<^verbatim>\<open>unsigned int\<close>
  complement, so the stored element is \<open>0x01FFFFFF\<close> and its upper 32 bits are clear.\<close>

lemma maskl_24:
  "idx maskl 24 =
     Some ((0x01FFFFFF, NOT 0), (NOT 0x0101010100000000, NOT 0x1008040200000000))"
  by (simp add: idx_def maskl_def cnot_def)

lemma lzcnt64_0: "lzcnt64 0 = 64"
  by (simp add: lzcnt64_def eval_nat_numeral)

lemma lzcnt64_rays_24: "lzcnt64 0x20408 = 46" "lzcnt64 0x10101 = 47"
  by (simp_all add: lzcnt64_def eval_nat_numeral)

lemma length_masko: "length masko = 64"
  by (simp add: masko_def)

lemma masko_3: "idx masko 3 = Some (0x6, 0, 0, 0)"
  by (simp add: idx_def masko_def)

lemma masko_24: "idx masko 24 = Some (0, 0x20400, 0x10100, 0)"
  by (simp add: idx_def masko_def)

lemma masko_39: "idx masko 39 = Some (0x7E00000000, 0, 0x80808000, 0x40201000)"
  by (simp add: idx_def masko_def)

lemma right_flip_clz_no_ray: "right_flip_clz z P Opp mo 0 = 0"
  by (simp add: right_flip_clz_def)

lemma lzcnt_from_rays: "lzcnt_from 64 (0x1 :: u64) = 63" "lzcnt_from 64 (0x20408 :: u64) = 46"
  "lzcnt_from 64 (0x10101 :: u64) = 47" "lzcnt_from 64 (0x100000000 :: u64) = 31"
  "lzcnt_from 64 (0x80808080 :: u64) = 32" "lzcnt_from 64 (0x40201008 :: u64) = 33"
  by (simp_all add: eval_nat_numeral)


section \<open>Only opponent discs flip\<close>

lemma right_flip_subset: "right_flip P Opp mr AND NOT Opp = 0"
  unfolding right_flip_def by (rule right_ray_subset)

lemma left_flip_subset: "P AND Opp = 0 \<Longrightarrow> left_flip P Opp ml AND NOT Opp = 0"
  unfolding left_flip_def Let_def by (rule left_lane_subset)

lemma right_flip_clz_subset: "right_flip_clz z P Opp mo mr AND NOT Opp = 0"
  unfolding right_flip_clz_def by (rule right_ray_subset_clz)

lemma or_and_zero: "(a OR b) AND (c::u64) = 0 \<longleftrightarrow> a AND c = 0 \<and> b AND c = 0"
  by (simp add: bit.conj_disj_distrib2 or_eq_0_iff)

section \<open>Byte masks\<close>

lemma bit_movemask_lane: "bit (movemask_epi8_lane a) j \<longleftrightarrow> j < 8 \<and> bit a (8 * j + 7)"
  by (auto simp: movemask_epi8_lane_def bit_horner_sum_bit_word_iff)

lemma bit_cmpeq_lane:
  "bit (cmpeq_epi8_lane a b) n \<longleftrightarrow> n < 64 \<and> byte_of a (n div 8) = byte_of b (n div 8)"
  by (auto simp: cmpeq_epi8_lane_def bit_horner_sum_bit_word_iff)

lemma bit_zero_mask:
  "bit (movemask_epi8_lane (cmpeq_epi8_lane a 0)) j \<longleftrightarrow> j < 8 \<and> byte_of a j = 0"
  by (auto simp: bit_movemask_lane bit_cmpeq_lane byte_of_def)

lemma COUNT_FLIP_entries:
  "list_all (\<lambda>row. length row = 256 \<and> list_all (\<lambda>v. even v \<and> v \<le> 12) row) COUNT_FLIP"
  by (simp add: COUNT_FLIP_def)

lemma length_COUNT_FLIP: "length COUNT_FLIP = 8"
  by (simp add: COUNT_FLIP_def)

lemma bit_nonzero_bytes: "bit (nonzero_bytes a) j \<longleftrightarrow> j < 8 \<and> byte_of a j \<noteq> 0"
  by (auto simp: nonzero_bytes_def bit_horner_sum_bit_word_iff)

lemma byte_of_0: "byte_of 0 j = 0"
  by (simp add: byte_of_def)

lemma t_avx2_low:
  "(ucast (NOT (mm256_movemask_epi8 (mm256_cmpeq_epi8 (a0, a1, a2, a3) mm256_setzero_si256))) :: u8)
     = nonzero_bytes a0"
proof (rule bit_eqI)
  fix n assume "possible_bit TYPE(u8) n"
  then have "n < 8" by simp
  then show "bit (ucast (NOT (mm256_movemask_epi8 (mm256_cmpeq_epi8 (a0, a1, a2, a3) mm256_setzero_si256))) :: u8) n
      = bit (nonzero_bytes a0) n"
    by (simp add: bit_simps mm256_setzero_si256_def bit_zero_mask bit_nonzero_bytes)
qed

lemma t_avx2_high:
  "(ucast (drop_bit 8 (NOT (mm256_movemask_epi8 (mm256_cmpeq_epi8 (a0, a1, a2, a3) mm256_setzero_si256)))) :: u8)
     = nonzero_bytes a1"
proof (rule bit_eqI)
  fix n assume "possible_bit TYPE(u8) n"
  then have "n < 8" by simp
  then show "bit (ucast (drop_bit 8 (NOT (mm256_movemask_epi8 (mm256_cmpeq_epi8 (a0, a1, a2, a3) mm256_setzero_si256)))) :: u8) n
      = bit (nonzero_bytes a1) n"
    by (simp add: bit_simps mm256_setzero_si256_def bit_zero_mask bit_nonzero_bytes)
qed

lemma t_avx2_top:
  "drop_bit 16 (NOT (mm256_movemask_epi8 (mm256_cmpeq_epi8 (a0, a1, a2, 0) mm256_setzero_si256)))
     = ucast (nonzero_bytes a2)"
proof (rule bit_eqI)
  fix n assume "possible_bit TYPE(u32) n"
  then have n: "n < 32" by simp
  show "bit (drop_bit 16 (NOT (mm256_movemask_epi8 (mm256_cmpeq_epi8 (a0, a1, a2, 0) mm256_setzero_si256)))) n
      = bit (ucast (nonzero_bytes a2) :: u32) n"
  proof (cases "n < 8")
    case True
    then show ?thesis
      by (simp add: bit_simps mm256_setzero_si256_def bit_zero_mask bit_nonzero_bytes)
  next
    case False
    then show ?thesis using n
      by (auto simp add: bit_simps mm256_setzero_si256_def bit_zero_mask bit_nonzero_bytes byte_of_0)
  qed
qed

section \<open>\<^verbatim>\<open>last_flip\<close> reads four patterns\<close>

lemma length_mask_d_v: "length mask_d_v = 64"
  by (simp add: mask_d_v_def)

lemma mask_d_v_fourth_lane: "list_all (\<lambda>(d7, d9, col, none). none = 0) mask_d_v"
  by (simp add: mask_d_v_def)

lemma mask_d_v_row:
  assumes "n < 64"
  shows "\<exists>d7 d9 col. mask_d_v ! n = (d7, d9, col, 0)"
proof -
  from assms have "mask_d_v ! n \<in> set mask_d_v" by (simp add: length_mask_d_v)
  with mask_d_v_fourth_lane show ?thesis
    by (cases "mask_d_v ! n") (auto simp add: list_all_iff)
qed

lemma int_and_7: "int n AND 7 = int (n mod 8)"
proof -
  have "int n AND 7 = int n AND mask 3" by (simp add: mask_eq_exp_minus_1)
  also have "\<dots> = take_bit 3 (int n)" by (simp add: take_bit_eq_mask)
  also have "\<dots> = int (n mod 8)" by (simp add: take_bit_eq_mod zmod_int)
  finally show ?thesis .
qed

lemma int_drop_3: "drop_bit 3 (int n) = int (n div 8)"
  by (simp add: drop_bit_eq_div zdiv_int)

lemma uint_ucast_u8: "uint (ucast (w :: u8) :: u32) = uint w"
proof -
  have "uint w < 2 ^ 8" using uint_lt2p [of w] by simp
  then have "uint w < 2 ^ 32" by simp
  then show ?thesis
    by (simp add: unsigned_ucast_eq take_bit_int_eq_self)
qed

lemma nat_8_int: "nat (8 * int m) = 8 * m"
  by (simp add: nat_mult_distrib)

lemma last_flip_avx2_lines:
  assumes n: "n < 64"
  shows "last_flip_avx2 (int n) P = line_counts n P"
proof -
  obtain d7 d9 col where row: "mask_d_v ! n = (d7, d9, col, 0)"
    using mask_d_v_row [OF n] by blast
  have m: "idx mask_d_v (int n) = Some (d7, d9, col, 0)"
    using n by (simp add: idx_def length_mask_d_v row)
  show ?thesis
    unfolding last_flip_avx2_def line_counts_def m row
    by (simp add: Let_def mm_cvtsi64_si128_def mm256_broadcastq_epi64_def int_and_7 int_drop_3
        t_avx2_low t_avx2_high t_avx2_top uint_ucast_u8 mult.commute nat_8_int)
qed

lemma COUNT_FLIP_at_u8:
  assumes i: "i < 8"
  shows "\<exists>v. COUNT_FLIP_at (int i) (uint (w :: u8)) = Some v \<and> even v \<and> v \<le> 12"
proof -
  define row where "row = COUNT_FLIP ! i"
  have "row \<in> set COUNT_FLIP"
    using i by (simp add: row_def length_COUNT_FLIP)
  with COUNT_FLIP_entries have len: "length row = 256" and ent: "list_all (\<lambda>v. even v \<and> v \<le> 12) row"
    by (auto simp: list_all_iff)
  have r: "idx COUNT_FLIP (int i) = Some row"
    using i by (simp add: idx_def length_COUNT_FLIP row_def)
  have w: "unat w < 256" using unsigned_less [of w, where ?'a = nat] by simp
  have w': "uint w < 256" using uint_lt2p [of w] by simp
  then have c: "idx row (uint w) = Some (row ! unat w)"
    by (simp add: idx_def len)
  have "row ! unat w \<in> set row" using w by (simp add: len)
  with ent have "even (row ! unat w) \<and> row ! unat w \<le> 12"
    by (auto simp: list_all_iff)
  then show ?thesis by (simp add: COUNT_FLIP_at_def r c)
qed

lemma even_uint_u8: "even (uint (v :: u8)) \<longleftrightarrow> even v"
proof -
  have "bit (uint v) (0::nat) \<longleftrightarrow> bit v (0::nat)"
    by (simp add: bit_uint_iff)
  then show ?thesis by (simp only: bit_0) simp
qed
  
lemma sum_of_four:
  fixes a b c d :: u8
  assumes "even a \<and> a \<le> 12" "even b \<and> b \<le> 12" "even c \<and> c \<le> 12" "even d \<and> d \<le> 12"
  shows "0 \<le> uint (a + b + c + d) \<and> uint (a + b + c + d) \<le> 48 \<and> even (uint (a + b + c + d))"
proof -
  have le: "uint a \<le> 12" "uint b \<le> 12" "uint c \<le> 12" "uint d \<le> 12"
    using assms by (simp_all add: word_le_def)
  have ev: "even (uint a)" "even (uint b)" "even (uint c)" "even (uint d)"
    using assms by (simp_all add: even_uint_u8)
  have "uint (a + b + c + d) = (uint a + uint b + uint c + uint d) mod 2 ^ 8"
    by (simp add: uint_word_ariths mod_simps)
  also have "\<dots> = uint a + uint b + uint c + uint d"
    using le by (intro mod_pos_pos_trivial) simp_all
  finally have s: "uint (a + b + c + d) = uint a + uint b + uint c + uint d" .
  show ?thesis
    using le ev by (simp add: s)
qed

lemma line_counts_total:
  assumes n: "n < 64"
  shows "\<exists>r. line_counts n P = Some r \<and> 0 \<le> r \<and> r \<le> 48 \<and> even r"
proof -
  have y: "n div 8 < 8" using n by simp
  have x: "n mod 8 < 8" by simp
  obtain d7 d9 col none where row: "mask_d_v ! n = (d7, d9, col, none)"
    by (cases "mask_d_v ! n")
  obtain v1 where v1: "COUNT_FLIP_at (int (n div 8)) (uint (nonzero_bytes (P AND col))) = Some v1"
      "even v1 \<and> v1 \<le> 12"
    using COUNT_FLIP_at_u8 [OF y] by blast
  obtain v2 where v2: "COUNT_FLIP_at (int (n div 8)) (uint (nonzero_bytes (P AND d9))) = Some v2"
      "even v2 \<and> v2 \<le> 12"
    using COUNT_FLIP_at_u8 [OF y] by blast
  obtain v3 where v3: "COUNT_FLIP_at (int (n div 8)) (uint (nonzero_bytes (P AND d7))) = Some v3"
      "even v3 \<and> v3 \<le> 12"
    using COUNT_FLIP_at_u8 [OF y] by blast
  obtain v4 where v4: "COUNT_FLIP_at (int (n mod 8)) (uint (ucast (drop_bit (8 * (n div 8)) P) :: u8)) = Some v4"
      "even v4 \<and> v4 \<le> 12"
    using COUNT_FLIP_at_u8 [OF x] by blast
  have "line_counts n P = Some (uint (v1 + v2 + v3 + v4))"
    by (simp add: line_counts_def row v1(1) v2(1) v3(1) v4(1))
  with sum_of_four [OF v1(2) v2(2) v3(2) v4(2)] show ?thesis by simp
qed

lemma mask_d_v_0: "mask_d_v ! 0 = (0x1, 0x8040201008040201, 0x0101010101010101, 0)"
  by (simp add: mask_d_v_def)

lemma nonzero_bytes_scenario_C: "nonzero_bytes 0x0101010101010100 = 0xFE" "nonzero_bytes 0 = 0" "nonzero_bytes 0x8040201008040200 = 0xFE"
  by (simp_all add: nonzero_bytes_def byte_of_def upt_rec)

lemma COUNT_FLIP_scenario_C: "COUNT_FLIP_at 0 0xFE = Some 0" "COUNT_FLIP_at 0 0 = Some 0" "COUNT_FLIP_at 0 0xF8 = Some 4"
  by (simp_all add: COUNT_FLIP_at_def idx_def COUNT_FLIP_def)

lemma line_counts_scenario_C: "line_counts 0 0xFFFFFFFFFFFFFFF8 = Some 4"
  by (simp add: line_counts_def mask_d_v_0 nonzero_bytes_scenario_C COUNT_FLIP_scenario_C)


lemma word_reverse_player: "word_reverse (0x100000000 :: u64) = 0x80000000"
  by (simp add: word_reverse_def upt_rec)

lemma word_reverse_opponent: "word_reverse (0xFE000000 :: u64) = 0x7F00000000"
  by (simp add: word_reverse_def upt_rec)

lemma maskr_39: "idx maskr 39 = Some (0x7F00000000, 0, 0x80808080, 0x40201008)"
  by (simp add: idx_def maskr_def)

lemma maskl_39: "idx maskl 39 = Some ((NOT 0, NOT 0x1020400000000000), (NOT 0x8080800000000000, NOT 0))"
  by (simp add: idx_def maskl_def cnot_def)

lemma lzcnt64_rays_39: "lzcnt64 0x80808080 = 32" "lzcnt64 0x40201008 = 33"
  by (simp_all add: lzcnt64_def eval_nat_numeral)

lemma flip_at_39: "flip 39 0x80000000 0x7F00000000 = Some 0"
  by (simp add: flip_rays maskr_39 maskl_39 right_flip_def left_flip_def count_opp_reverse_def
      lzcnt64_0 lzcnt64_rays_39 shr64_def)

lemma flip_at_24_full: "flip 24 0xFFFFFFFF00FFFFFF (NOT 0xFFFFFFFF00FFFFFF AND NOT (push_bit 24 1)) = Some 0xFE000000"
  by (simp add: flip_rays maskr_24 maskl_24 right_flip_def left_flip_def count_opp_reverse_def
      lzcnt64_0 lzcnt64_rays_24 shr64_def)

lemma bit_count_row: "bit_count 0xFE000000 = 7"
  by (simp add: bit_count_def upt_rec)

lemma mask_d_v_24: "mask_d_v ! 24 = (0x1020408, 0x1008040201000000, 0x0101010101010101, 0)"
  by (simp add: mask_d_v_def)

lemma nonzero_bytes_at_24: "nonzero_bytes 0x0101010100010101 = 0xF7" "nonzero_bytes 0x1008040200000000 = 0xF0" "nonzero_bytes 0x0000000000020408 = 0x07"
  by (simp_all add: nonzero_bytes_def byte_of_def upt_rec)

lemma COUNT_FLIP_at_24: "COUNT_FLIP_at 3 0xF7 = Some 0" "COUNT_FLIP_at 3 0xF0 = Some 0" "COUNT_FLIP_at 3 0x07 = Some 0" "COUNT_FLIP_at 0 0 = Some 0"
  by (simp_all add: COUNT_FLIP_at_def idx_def COUNT_FLIP_def)

lemma line_counts_24: "line_counts 24 0xFFFFFFFF00FFFFFF = Some 0"
  by (simp add: line_counts_def mask_d_v_24 nonzero_bytes_at_24 COUNT_FLIP_at_24)

lemma flip_clz_scenario_B: "flip_clz z 3 0 0x7 = Some 0"
  by (simp add: flip_clz_rays masko_3 maskr_3 maskl_3 right_flip_clz_def left_flip_def)

lemma flip_clz_at_24: "flip_clz z 24 0x100000000 0xFE000000 = Some 0xFE000000"
  by (simp add: flip_clz_rays masko_24 maskr_24 maskl_24 right_flip_clz_no_ray left_flip_def)
     (simp add: right_flip_clz_def count_opp_reverse_clz_def builtin_clzll_def lzcnt_from_rays shr64_def)

lemma flip_clz_at_24_full:
  "flip_clz z 24 0xFFFFFFFF00FFFFFF (NOT 0xFFFFFFFF00FFFFFF AND NOT (push_bit 24 1)) = Some 0xFE000000"
  by (simp add: flip_clz_rays masko_24 maskr_24 maskl_24 right_flip_clz_no_ray left_flip_def)
     (simp add: right_flip_clz_def count_opp_reverse_clz_def builtin_clzll_def lzcnt_from_rays shr64_def)

lemma flip_clz_at_39: "flip_clz z 39 0x80000000 0x7F00000000 = Some 0"
  by (simp add: flip_clz_rays masko_39 maskr_39 maskl_39 right_flip_clz_no_ray left_flip_def)
     (simp add: right_flip_clz_def count_opp_reverse_clz_def builtin_clzll_def lzcnt_from_rays shr64_def)

section \<open>\<^verbatim>\<open>flip\<close> against the rule, ray by ray\<close>

lemma bit_fold_squares:
  "bit (fold (\<lambda>c w. w OR 2 ^ c) cs (a :: u64)) n \<longleftrightarrow> bit a n \<or> (n < 64 \<and> n \<in> set cs)"
proof (induction cs arbitrary: a)
  case Nil
  show ?case by simp
next
  case (Cons c cs)
  show ?case
    by (auto simp add: Cons.IH bit_or_iff bit_exp_iff)
qed

lemma bit_squares_mask: "bit (squares_mask cs) n \<longleftrightarrow> n < 64 \<and> n \<in> set cs"
  by (simp add: squares_mask_def bit_fold_squares)

lemma lzcnt_from_top:
  assumes j: "j < 64" and b: "bit x j" and above: "\<forall>i. j < i \<and> i < 64 \<longrightarrow> \<not> bit x i"
  shows "lzcnt_from 64 x = 63 - j"
proof -
  define k where "k = lzcnt_from 64 x"
  have "k \<noteq> 64"
    using lzcnt_from_full [of 64 x] j b by (auto simp: k_def)
  with lzcnt_from_le [of 64 x] have klt: "k < 64" by (simp add: k_def)
  from lzcnt_from_hit [of 64 x] klt
  have h: "bit x (64 - Suc k)" and none: "\<forall>i. 64 - Suc k < i \<and> i < 64 \<longrightarrow> \<not> bit x i"
    by (simp_all add: k_def)
  have "64 - Suc k = j"
  proof (rule ccontr)
    assume ne: "64 - Suc k \<noteq> j"
    show False
    proof (cases "64 - Suc k < j")
      case True
      with none j b show False by blast
    next
      case False
      with ne have "j < 64 - Suc k" by simp
      moreover have "64 - Suc k < 64" using klt by simp
      ultimately show False using above h by blast
    qed
  qed
  then show ?thesis using klt by (simp add: k_def)
qed

lemma shr64_top_64: "shr64 0x8000000000000000 64 = 0x8000000000000000"
  by (simp add: shr64_def)

lemma top_bit_doubled: "((0x8000000000000000 :: u64) AND P) * 2 = 0"
proof -
  have "(0x8000000000000000 :: u64) AND P = (if bit P 63 then 0x8000000000000000 else 0)"
    using exp_and_word [of 63 P] by simp
  then show ?thesis by simp
qed

lemma ray_split:
  assumes "dropWhile (bit Opp) cells = j # rest"
  shows "cells = takeWhile (bit Opp) cells @ j # rest" and "\<not> bit Opp j"
    and "\<forall>c \<in> set (takeWhile (bit Opp) cells). bit Opp c"
proof -
  show "cells = takeWhile (bit Opp) cells @ j # rest"
    using takeWhile_dropWhile_id [of "bit Opp" cells] assms by simp
  show "\<not> bit Opp j"
    using hd_dropWhile [of "bit Opp" cells] assms by simp
  show "\<forall>c \<in> set (takeWhile (bit Opp) cells). bit Opp c"
    by (auto dest: set_takeWhileD)
qed

lemma right_flip_ray:
  assumes desc: "sorted_wrt (>) cells" and bound: "\<forall>c \<in> set cells. c < 64"
    and mr: "mr = squares_mask cells"
  shows "right_flip P Opp mr = ray_flip P Opp cells"
proof (cases "dropWhile (bit Opp) cells")
  case Nil
  then have allO: "\<forall>c \<in> set cells. bit Opp c" by (simp add: dropWhile_eq_Nil_conv)
  have "NOT Opp AND mr = 0"
    using allO by (intro bit_eqI) (auto simp add: mr bit_and_iff bit_not_iff bit_squares_mask)
  then show ?thesis
    by (simp add: right_flip_def count_opp_reverse_def lzcnt64_0 shr64_top_64 top_bit_doubled
        ray_flip_def Nil)
next
  case (Cons j rest)
  define run where "run = takeWhile (bit Opp) cells"
  from ray_split [OF Cons] have cells: "cells = run @ j # rest" and nj: "\<not> bit Opp j"
    and runO: "\<forall>c \<in> set run. bit Opp c"
    by (simp_all add: run_def)
  from desc cells have gt: "\<forall>c \<in> set run. j < c" and lt: "\<forall>c \<in> set rest. c < j"
    by (auto simp add: sorted_wrt_append)
  have j64: "j < 64" using bound cells by simp
  define x where "x = NOT Opp AND mr"
  have xj: "bit x j" using nj j64 by (simp add: x_def mr bit_and_iff bit_not_iff bit_squares_mask cells)
  have above: "\<forall>i. j < i \<and> i < 64 \<longrightarrow> \<not> bit x i"
    using runO lt by (auto simp add: x_def mr bit_and_iff bit_not_iff bit_squares_mask cells)
  have lz: "lzcnt64 x = 63 - j"
    unfolding lzcnt64_def by (rule lzcnt_from_top [OF j64 xj above])
  have sh: "shr64 0x8000000000000000 (count_opp_reverse Opp mr) = 2 ^ j"
    using j64 by (simp add: shr64_def count_opp_reverse_def x_def [symmetric] lz drop_bit_top)
  have rf: "ray_flip P Opp cells = (if run \<noteq> [] \<and> bit P j then squares_mask run else 0)"
    by (simp add: ray_flip_def Cons run_def [symmetric])
  show ?thesis
  proof (cases "bit P j")
    case False
    then show ?thesis by (simp add: rf right_flip_def sh exp_and_word)
  next
    case True
    have "- ((2::u64) ^ Suc j) AND mr = squares_mask run"
    proof (rule bit_eqI)
      fix n
      show "bit (- ((2::u64) ^ Suc j) AND mr) n = bit (squares_mask run) n"
        using gt lt
        by (auto simp add: bit_and_iff bit_neg_exp bit_squares_mask mr cells Suc_le_eq
            simp del: power_Suc)
    qed
    moreover have "squares_mask [] = 0" by (simp add: squares_mask_def)
    ultimately show ?thesis
      using True by (auto simp add: rf right_flip_def sh exp_and_word mult.commute)
  qed
qed

lemma left_flip_ray:
  assumes asc: "sorted_wrt (<) cells" and bound: "\<forall>c \<in> set cells. c < 64"
    and ml: "ml = NOT (squares_mask cells)" and disj: "P AND Opp = 0"
  shows "left_flip P Opp ml = ray_flip P Opp cells"
proof -
  define w where "w = Opp OR ml"
  define outflank where "outflank = NOT ml AND (w - (- 1)) AND P"
  have lf: "left_flip P Opp ml =
      NOT ml AND (outflank
        - ((if (ucast (drop_bit 32 outflank) :: u32) = ucast outflank then - 1 else 0) - (- 1)))"
    by (simp add: left_flip_def Let_def outflank_def w_def)
  have wbit: "bit w n \<longleftrightarrow> n < 64 \<and> (bit Opp n \<or> n \<notin> set cells)" for n
    by (auto simp add: w_def ml bit_or_iff bit_not_iff bit_squares_mask dest: bit_imp_le_length)
  have PO: "\<not> (bit P n \<and> bit Opp n)" for n
  proof -
    have "bit (P AND Opp) n = bit (0::u64) n" using disj by simp
    then show ?thesis by (simp add: bit_and_iff)
  qed
  show ?thesis
  proof (cases "dropWhile (bit Opp) cells")
    case Nil
    then have allO: "\<forall>c \<in> set cells. bit Opp c" by (simp add: dropWhile_eq_Nil_conv)
    then have "\<forall>i<64. bit w i" by (auto simp add: wbit)
    then have "outflank = 0" by (simp add: outflank_def word_inc_full)
    then show ?thesis by (simp add: lf ray_flip_def Nil)
  next
    case (Cons j rest)
    define run where "run = takeWhile (bit Opp) cells"
    from ray_split [OF Cons] have cells: "cells = run @ j # rest" and nj: "\<not> bit Opp j"
      and runO: "\<forall>c \<in> set run. bit Opp c"
      by (simp_all add: run_def)
    from asc cells have lt: "\<forall>c \<in> set run. c < j" and gt: "\<forall>c \<in> set rest. j < c"
      by (auto simp add: sorted_wrt_append)
    have j64: "j < 64" using bound cells by simp
    have clr: "\<not> bit w j" using nj by (simp add: wbit cells)
    have low: "\<forall>i<j. bit w i"
      using runO gt j64 by (auto simp add: wbit cells)
    note inc = word_inc_bits [OF low clr j64]
    have of_bits: "bit outflank n \<longleftrightarrow> n = j \<and> bit P j" for n
      using PO [of n] j64
      by (auto simp add: outflank_def bit_and_iff bit_not_iff inc ml bit_squares_mask wbit cells)
    have rf: "ray_flip P Opp cells = (if run \<noteq> [] \<and> bit P j then squares_mask run else 0)"
      by (simp add: ray_flip_def Cons run_def [symmetric])
    show ?thesis
    proof (cases "bit P j")
      case False
      then have "outflank = 0" by (intro bit_eqI) (simp add: of_bits)
      then show ?thesis using False by (simp add: lf rf)
    next
      case True
      then have o: "outflank = 2 ^ j"
        using j64 by (intro bit_eqI) (auto simp: of_bits bit_exp_iff)
      have fm0: "(ucast (drop_bit 32 outflank) :: u32) \<noteq> ucast outflank"
        using one_bit_halves [OF j64] by (simp add: o)
      have "NOT ml AND mask j = squares_mask run"
      proof (rule bit_eqI)
        fix n
        show "bit (NOT ml AND mask j) n = bit (squares_mask run) n"
          using lt gt j64
          by (auto simp add: bit_and_iff bit_not_iff bit_mask_iff ml bit_squares_mask cells)
      qed
      moreover have "squares_mask [] = 0" by (simp add: squares_mask_def)
      ultimately show ?thesis
        using True fm0 by (auto simp add: lf rf o mask_eq_exp_minus_1)
    qed
  qed
qed

lemma right_flip_clz_ray:
  assumes desc: "sorted_wrt (>) cells" and bound: "\<forall>c \<in> set cells. c < 64"
    and mr: "mr = squares_mask cells" and mo: "mo = squares_mask (butlast cells)"
    and disj: "P AND Opp = 0"
  shows "right_flip_clz z P Opp mo mr = ray_flip P Opp cells"
proof (cases "cells = []")
  case True
  then show ?thesis
    by (simp add: mr squares_mask_def right_flip_clz_def ray_flip_def)
next
  case ne: False
  define g where "g = last cells"
  have cells_g: "cells = butlast cells @ [g]" using ne by (simp add: g_def)
  with desc have "sorted_wrt (>) (butlast cells @ [g])" by simp
  then have front: "\<forall>c \<in> set (butlast cells). g < c"
    by (simp add: sorted_wrt_append)
  have g64: "g < 64" using bound ne by (simp add: g_def)
  have g_in: "g \<in> set cells" using ne by (simp add: g_def)
  have mem: "c \<in> set cells \<longleftrightarrow> c \<in> set (butlast cells) \<or> c = g" for c
    by (subst cells_g) auto
  define x where "x = (Opp AND mo) XOR mr"
  have xbit: "bit x n \<longleftrightarrow> n < 64 \<and> n \<in> set cells \<and> \<not> (bit Opp n \<and> n \<in> set (butlast cells))" for n
    using in_set_butlastD [of n cells]
    by (auto simp add: x_def mr mo bit_xor_iff bit_and_iff bit_squares_mask)
  have PO: "\<not> (bit P n \<and> bit Opp n)" for n
  proof -
    have "bit (P AND Opp) n = bit (0::u64) n" using disj by simp
    then show ?thesis by (simp add: bit_and_iff)
  qed
  have xg: "bit x g" using g64 g_in front by (auto simp add: xbit)
  then have x0: "x \<noteq> 0" by auto
  have top: "shr64 0x8000000000000000 (count_opp_reverse_clz z Opp mo mr) = 2 ^ j"
    if j: "j < 64" and b: "bit x j" and above: "\<forall>i. j < i \<and> i < 64 \<longrightarrow> \<not> bit x i" for j
    using j x0 lzcnt_from_top [OF j b above]
    by (simp add: shr64_def count_opp_reverse_clz_def builtin_clzll_def x_def [symmetric]
        drop_bit_top)
  show ?thesis
  proof (cases "dropWhile (bit Opp) cells")
    case Nil
    then have allO: "\<forall>c \<in> set cells. bit Opp c" by (simp add: dropWhile_eq_Nil_conv)
    have above: "\<forall>i. g < i \<and> i < 64 \<longrightarrow> \<not> bit x i"
      using allO by (auto simp add: xbit mem)
    have "\<not> bit P g" using allO g_in PO [of g] by blast
    then show ?thesis
      by (simp add: right_flip_clz_def top [OF g64 xg above] exp_and_word ray_flip_def Nil)
  next
    case (Cons j rest)
    define run where "run = takeWhile (bit Opp) cells"
    from ray_split [OF Cons] have cells: "cells = run @ j # rest" and nj: "\<not> bit Opp j"
      and runO: "\<forall>c \<in> set run. bit Opp c"
      by (simp_all add: run_def)
    from desc cells have gt: "\<forall>c \<in> set run. j < c" and lt: "\<forall>c \<in> set rest. c < j"
      by (auto simp add: sorted_wrt_append)
    have j64: "j < 64" using bound cells by simp
    have j_in: "j \<in> set cells" by (subst cells) simp
    have xj: "bit x j" using nj j64 j_in by (simp add: xbit)
    have run_front: "c \<in> set (butlast cells)" if "c \<in> set run" for c
    proof -
      from that gt have "j < c" by blast
      moreover have "g \<le> j" using front j_in mem [of j] by auto
      moreover have "c \<in> set cells" using that by (subst cells) simp
      ultimately show ?thesis using mem [of c] by auto
    qed
    have above: "\<forall>i. j < i \<and> i < 64 \<longrightarrow> \<not> bit x i"
    proof (intro allI impI)
      fix i assume i: "j < i \<and> i < 64"
      show "\<not> bit x i"
      proof
        assume "bit x i"
        then have ic: "i \<in> set cells" and no: "\<not> (bit Opp i \<and> i \<in> set (butlast cells))"
          by (simp_all add: xbit)
        from ic i lt have "i \<in> set run" by (subst (asm) cells) auto
        with runO run_front no show False by blast
      qed
    qed
    have rf: "ray_flip P Opp cells = (if run \<noteq> [] \<and> bit P j then squares_mask run else 0)"
      by (simp add: ray_flip_def Cons run_def [symmetric])
    show ?thesis
    proof (cases "bit P j")
      case False
      then show ?thesis by (simp add: rf right_flip_clz_def top [OF j64 xj above] exp_and_word)
    next
      case True
      have "- ((2::u64) ^ Suc j) AND mr = squares_mask run"
      proof (rule bit_eqI)
        fix n
        show "bit (- ((2::u64) ^ Suc j) AND mr) n = bit (squares_mask run) n"
          using gt lt
          by (auto simp add: bit_and_iff bit_neg_exp bit_squares_mask mr cells Suc_le_eq
              simp del: power_Suc)
      qed
      moreover have "squares_mask [] = 0" by (simp add: squares_mask_def)
      ultimately show ?thesis
        using True
        by (auto simp add: rf right_flip_clz_def top [OF j64 xj above] exp_and_word mult.commute)
    qed
  qed
qed


section \<open>The masks against the geometry of the board\<close>

text \<open>
  Every mask of \<^verbatim>\<open>maskr\<close> and \<^verbatim>\<open>masko\<close> is the ray it stands for. So is every element of
  \<^verbatim>\<open>maskl\<close> on 54 squares; on the squares 4, 13, 22 and 24 to 30 one element has lost its
  upper 32 bits.
\<close>

lemma ray_numeral:
  "ray (numeral k) x y d =
     (let x' = x + fst d; y' = y + snd d
      in if 0 \<le> x' \<and> x' < 8 \<and> 0 \<le> y' \<and> y' < 8
         then nat (8 * y' + x') # ray (pred_numeral k) x' y' d else [])"
  by (simp add: numeral_eq_Suc)

lemma ray_one:
  "ray 1 x y d =
     (let x' = x + fst d; y' = y + snd d
      in if 0 \<le> x' \<and> x' < 8 \<and> 0 \<le> y' \<and> y' < 8
         then [nat (8 * y' + x')] else [])"
  by (simp add: Let_def)

lemma maskr_rays:
  "list_all (\<lambda>n. case maskr ! n of (m1, m7, m8, m9) \<Rightarrow>
      let x = int (n mod 8); y = int (n div 8)
      in ray_low m1 (ray 7 x y (- 1, 0)) \<and> ray_low m7 (ray 7 x y (1, - 1))
       \<and> ray_low m8 (ray 7 x y (0, - 1)) \<and> ray_low m9 (ray 7 x y (- 1, - 1))) [0..<64]"
  by (simp add: upt_rec maskr_def ray_low_def squares_mask_def ray_numeral ray_one Let_def)

lemma maskl_rays:
  "list_all (\<lambda>n. n \<in> {4, 13, 22, 24, 25, 26, 27, 28, 29, 30} \<or>
     (case maskl ! n of ((m1, m7), (m8, m9)) \<Rightarrow>
      let x = int (n mod 8); y = int (n div 8)
      in ray_high m1 (ray 7 x y (1, 0)) \<and> ray_high m7 (ray 7 x y (- 1, 1))
       \<and> ray_high m8 (ray 7 x y (0, 1)) \<and> ray_high m9 (ray 7 x y (1, 1)))) [0..<64]"
  by (simp add: upt_rec maskl_def cnot_def ray_high_def squares_mask_def ray_numeral ray_one Let_def)

lemma masko_rays:
  "list_all (\<lambda>n. case masko ! n of (m1, m7, m8, m9) \<Rightarrow>
      let x = int (n mod 8); y = int (n div 8)
      in m1 = squares_mask (butlast (ray 7 x y (- 1, 0)))
       \<and> m7 = squares_mask (butlast (ray 7 x y (1, - 1)))
       \<and> m8 = squares_mask (butlast (ray 7 x y (0, - 1)))
       \<and> m9 = squares_mask (butlast (ray 7 x y (- 1, - 1)))) [0..<64]"
  by (simp add: upt_rec masko_def squares_mask_def ray_numeral ray_one Let_def)

lemma right_flip_low: "ray_low mr cells \<Longrightarrow> right_flip P Opp mr = ray_flip P Opp cells"
  by (rule right_flip_ray) (simp_all add: ray_low_def list_all_iff)

lemma left_flip_high:
  "ray_high ml cells \<Longrightarrow> P AND Opp = 0 \<Longrightarrow> left_flip P Opp ml = ray_flip P Opp cells"
  by (rule left_flip_ray) (simp_all add: ray_high_def list_all_iff)

lemma flip_spec_rays:
  "flip_spec pos P Opp =
     ray_flip P Opp (ray 7 (pos mod 8) (pos div 8) (- 1, 0))
     OR ray_flip P Opp (ray 7 (pos mod 8) (pos div 8) (1, - 1))
     OR ray_flip P Opp (ray 7 (pos mod 8) (pos div 8) (0, - 1))
     OR ray_flip P Opp (ray 7 (pos mod 8) (pos div 8) (- 1, - 1))
     OR (ray_flip P Opp (ray 7 (pos mod 8) (pos div 8) (1, 0))
         OR ray_flip P Opp (ray 7 (pos mod 8) (pos div 8) (0, 1))
         OR (ray_flip P Opp (ray 7 (pos mod 8) (pos div 8) (- 1, 1))
             OR ray_flip P Opp (ray 7 (pos mod 8) (pos div 8) (1, 1))))"
  by (simp add: flip_spec_def directions_def ac_simps)


lemma right_flip_clz_low:
  "ray_low mr cells \<Longrightarrow> mo = squares_mask (butlast cells) \<Longrightarrow> P AND Opp = 0 \<Longrightarrow>
     right_flip_clz z P Opp mo mr = ray_flip P Opp cells"
  by (rule right_flip_clz_ray) (simp_all add: ray_low_def list_all_iff)

lemma list_all_upt: "list_all Q [0..<m] \<Longrightarrow> n < m \<Longrightarrow> Q n"
  by (simp add: list_all_iff)

lemma square_rays:
  assumes "0 \<le> pos" and "pos < 64"
  shows "\<exists>mo1 mo7 mo8 mo9 mr1 mr7 mr8 mr9 ml1 ml7 ml8 ml9.
     idx masko pos = Some (mo1, mo7, mo8, mo9) \<and> idx maskr pos = Some (mr1, mr7, mr8, mr9)
     \<and> idx maskl pos = Some ((ml1, ml7), (ml8, ml9))
     \<and> ray_low mr1 (ray 7 (pos mod 8) (pos div 8) (- 1, 0))
     \<and> ray_low mr7 (ray 7 (pos mod 8) (pos div 8) (1, - 1))
     \<and> ray_low mr8 (ray 7 (pos mod 8) (pos div 8) (0, - 1))
     \<and> ray_low mr9 (ray 7 (pos mod 8) (pos div 8) (- 1, - 1))
     \<and> mo1 = squares_mask (butlast (ray 7 (pos mod 8) (pos div 8) (- 1, 0)))
     \<and> mo7 = squares_mask (butlast (ray 7 (pos mod 8) (pos div 8) (1, - 1)))
     \<and> mo8 = squares_mask (butlast (ray 7 (pos mod 8) (pos div 8) (0, - 1)))
     \<and> mo9 = squares_mask (butlast (ray 7 (pos mod 8) (pos div 8) (- 1, - 1)))
     \<and> (pos \<notin> {4, 13, 22, 24, 25, 26, 27, 28, 29, 30} \<longrightarrow>
          ray_high ml1 (ray 7 (pos mod 8) (pos div 8) (1, 0))
          \<and> ray_high ml7 (ray 7 (pos mod 8) (pos div 8) (- 1, 1))
          \<and> ray_high ml8 (ray 7 (pos mod 8) (pos div 8) (0, 1))
          \<and> ray_high ml9 (ray 7 (pos mod 8) (pos div 8) (1, 1)))"
proof -
  define n where "n = nat pos"
  have n: "n < 64" and pos: "pos = int n" using assms by (simp_all add: n_def)
  have xy: "pos mod 8 = int (n mod 8)" "pos div 8 = int (n div 8)"
    by (simp_all add: pos zmod_int zdiv_int)
  have bad: "pos \<in> {4, 13, 22, 24, 25, 26, 27, 28, 29, 30} \<longleftrightarrow> n \<in> {4, 13, 22, 24, 25, 26, 27, 28, 29, 30}"
    by (auto simp add: pos)
  obtain mo1 mo7 mo8 mo9 where mo: "masko ! n = (mo1, mo7, mo8, mo9)" by (cases "masko ! n")
  obtain mr1 mr7 mr8 mr9 where mr: "maskr ! n = (mr1, mr7, mr8, mr9)" by (cases "maskr ! n")
  obtain ml1 ml7 ml8 ml9 where ml: "maskl ! n = ((ml1, ml7), (ml8, ml9))" by (cases "maskl ! n") auto
  have io: "idx masko pos = Some (mo1, mo7, mo8, mo9)"
    using n by (simp add: idx_def pos length_masko mo)
  have ir: "idx maskr pos = Some (mr1, mr7, mr8, mr9)"
    using n by (simp add: idx_def pos length_maskr mr)
  have il: "idx maskl pos = Some ((ml1, ml7), (ml8, ml9))"
    using n by (simp add: idx_def pos length_maskl ml)
  from list_all_upt [OF maskr_rays n] have low:
    "ray_low mr1 (ray 7 (pos mod 8) (pos div 8) (- 1, 0))
     \<and> ray_low mr7 (ray 7 (pos mod 8) (pos div 8) (1, - 1))
     \<and> ray_low mr8 (ray 7 (pos mod 8) (pos div 8) (0, - 1))
     \<and> ray_low mr9 (ray 7 (pos mod 8) (pos div 8) (- 1, - 1))"
    by (simp add: mr xy Let_def)
  from list_all_upt [OF masko_rays n] have guard:
    "mo1 = squares_mask (butlast (ray 7 (pos mod 8) (pos div 8) (- 1, 0)))
     \<and> mo7 = squares_mask (butlast (ray 7 (pos mod 8) (pos div 8) (1, - 1)))
     \<and> mo8 = squares_mask (butlast (ray 7 (pos mod 8) (pos div 8) (0, - 1)))
     \<and> mo9 = squares_mask (butlast (ray 7 (pos mod 8) (pos div 8) (- 1, - 1)))"
    by (simp add: mo xy Let_def)
  from list_all_upt [OF maskl_rays n] have
    "n \<in> {4, 13, 22, 24, 25, 26, 27, 28, 29, 30} \<or>
       (ray_high ml1 (ray 7 (pos mod 8) (pos div 8) (1, 0))
        \<and> ray_high ml7 (ray 7 (pos mod 8) (pos div 8) (- 1, 1))
        \<and> ray_high ml8 (ray 7 (pos mod 8) (pos div 8) (0, 1))
        \<and> ray_high ml9 (ray 7 (pos mod 8) (pos div 8) (1, 1)))"
    by (simp add: ml xy Let_def del: insert_iff)
  then have high: "pos \<notin> {4, 13, 22, 24, 25, 26, 27, 28, 29, 30} \<longrightarrow>
          ray_high ml1 (ray 7 (pos mod 8) (pos div 8) (1, 0))
          \<and> ray_high ml7 (ray 7 (pos mod 8) (pos div 8) (- 1, 1))
          \<and> ray_high ml8 (ray 7 (pos mod 8) (pos div 8) (0, 1))
          \<and> ray_high ml9 (ray 7 (pos mod 8) (pos div 8) (1, 1))"
    unfolding bad by blast
  from io ir il low guard high show ?thesis by blast
qed

lemma flip_meets_rule:
  assumes "0 \<le> pos" and "pos < 64" and good: "pos \<notin> {4, 13, 22, 24, 25, 26, 27, 28, 29, 30}"
    and disj: "P AND Opp = 0"
  shows "flip pos P Opp = Some (flip_spec pos P Opp)"
    and "flip_clz z pos P Opp = Some (flip_spec pos P Opp)"
proof -
  from square_rays [OF assms(1,2)] good
  obtain mo1 mo7 mo8 mo9 mr1 mr7 mr8 mr9 ml1 ml7 ml8 ml9 where
    tabs: "idx masko pos = Some (mo1, mo7, mo8, mo9)" "idx maskr pos = Some (mr1, mr7, mr8, mr9)"
      "idx maskl pos = Some ((ml1, ml7), (ml8, ml9))"
    and low: "ray_low mr1 (ray 7 (pos mod 8) (pos div 8) (- 1, 0))"
      "ray_low mr7 (ray 7 (pos mod 8) (pos div 8) (1, - 1))"
      "ray_low mr8 (ray 7 (pos mod 8) (pos div 8) (0, - 1))"
      "ray_low mr9 (ray 7 (pos mod 8) (pos div 8) (- 1, - 1))"
    and guard: "mo1 = squares_mask (butlast (ray 7 (pos mod 8) (pos div 8) (- 1, 0)))"
      "mo7 = squares_mask (butlast (ray 7 (pos mod 8) (pos div 8) (1, - 1)))"
      "mo8 = squares_mask (butlast (ray 7 (pos mod 8) (pos div 8) (0, - 1)))"
      "mo9 = squares_mask (butlast (ray 7 (pos mod 8) (pos div 8) (- 1, - 1)))"
    and high: "ray_high ml1 (ray 7 (pos mod 8) (pos div 8) (1, 0))"
      "ray_high ml7 (ray 7 (pos mod 8) (pos div 8) (- 1, 1))"
      "ray_high ml8 (ray 7 (pos mod 8) (pos div 8) (0, 1))"
      "ray_high ml9 (ray 7 (pos mod 8) (pos div 8) (1, 1))"
    by blast
  note left = left_flip_high [OF high(1) disj] left_flip_high [OF high(2) disj]
    left_flip_high [OF high(3) disj] left_flip_high [OF high(4) disj]
  show "flip pos P Opp = Some (flip_spec pos P Opp)"
    unfolding flip_rays tabs flip_spec_rays
    by (simp add: right_flip_low [OF low(1)] right_flip_low [OF low(2)] right_flip_low [OF low(3)]
        right_flip_low [OF low(4)] left)
  show "flip_clz z pos P Opp = Some (flip_spec pos P Opp)"
    unfolding flip_clz_rays tabs flip_spec_rays
    by (simp add: right_flip_clz_low [OF low(1) guard(1) disj]
        right_flip_clz_low [OF low(2) guard(2) disj] right_flip_clz_low [OF low(3) guard(3) disj]
        right_flip_clz_low [OF low(4) guard(4) disj] left)
qed

section \<open>The count-flip table against its generation rule\<close>

lemma COUNT_FLIP_row_0: "map (count_flip_rule 0) [0..<256] = map unat (COUNT_FLIP ! 0)"
  by code_simp

lemma COUNT_FLIP_row_1: "map (count_flip_rule 1) [0..<256] = map unat (COUNT_FLIP ! 1)"
  by code_simp

lemma COUNT_FLIP_row_2: "map (count_flip_rule 2) [0..<256] = map unat (COUNT_FLIP ! 2)"
  by code_simp

lemma COUNT_FLIP_row_3: "map (count_flip_rule 3) [0..<256] = map unat (COUNT_FLIP ! 3)"
  by code_simp

lemma COUNT_FLIP_row_4: "map (count_flip_rule 4) [0..<256] = map unat (COUNT_FLIP ! 4)"
  by code_simp

lemma COUNT_FLIP_row_5: "map (count_flip_rule 5) [0..<256] = map unat (COUNT_FLIP ! 5)"
  by code_simp

lemma COUNT_FLIP_row_6: "map (count_flip_rule 6) [0..<256] = map unat (COUNT_FLIP ! 6)"
  by code_simp

lemma COUNT_FLIP_row_7: "map (count_flip_rule 7) [0..<256] = map unat (COUNT_FLIP ! 7)"
  by code_simp

lemma COUNT_FLIP_rows:
  assumes "k < 8"
  shows "map (count_flip_rule k) [0..<256] = map unat (COUNT_FLIP ! k)"
proof -
  from assms have "k \<in> {0, 1, 2, 3, 4, 5, 6, 7}" by auto
  then show ?thesis
    using COUNT_FLIP_row_0 COUNT_FLIP_row_1 COUNT_FLIP_row_2 COUNT_FLIP_row_3
      COUNT_FLIP_row_4 COUNT_FLIP_row_5 COUNT_FLIP_row_6 COUNT_FLIP_row_7
    by auto
qed

lemma length_COUNT_FLIP_row: "k < 8 \<Longrightarrow> length (COUNT_FLIP ! k) = 256"
  using COUNT_FLIP_entries by (simp add: list_all_iff length_COUNT_FLIP)

section \<open>Two positions where the code and the rule agree\<close>

text \<open>
  Scenario A of the specification (square 3, player on square 1, opponent on square 2), and
  the opening move on square 19 against the four central discs, where the disc on square 27
  flips.
\<close>

lemma lzcnt_rays_3: "lzcnt64 0x3 = 62" "lzcnt_from 64 (0x3 :: u64) = 62"
  by (simp_all add: lzcnt64_def eval_nat_numeral)

lemma flip_scenario_A:
  "flip 3 0x2 0x4 = Some 0x4 \<and> flip_clz z 3 0x2 0x4 = Some 0x4 \<and> flip_spec 3 0x2 0x4 = 0x4"
proof -
  have "flip 3 0x2 0x4 = Some 0x4"
    by (simp add: flip_rays maskr_3 maskl_3 right_flip_def left_flip_def count_opp_reverse_def
        lzcnt64_0 lzcnt_rays_3 shr64_def)
  moreover have "flip_clz z 3 0x2 0x4 = Some 0x4"
    by (simp add: flip_clz_rays masko_3 maskr_3 maskl_3 right_flip_clz_no_ray left_flip_def)
       (simp add: right_flip_clz_def count_opp_reverse_clz_def builtin_clzll_def lzcnt_rays_3 shr64_def)
  moreover have "flip_spec 3 0x2 0x4 = 0x4"
    by (simp add: flip_spec_def directions_def ray_flip_def squares_mask_def eval_nat_numeral)
  ultimately show ?thesis by simp
qed

lemma maskr_19: "idx maskr 19 = Some (0x70000, 0x1020, 0x808, 0x402)"
  by (simp add: idx_def maskr_def)

lemma masko_19: "idx masko 19 = Some (0x60000, 0x1000, 0x800, 0x400)"
  by (simp add: idx_def masko_def)

lemma maskl_19:
  "idx maskl 19 =
     Some ((NOT 0xF00000, NOT 0x10204000000), (NOT 0x0808080808000000, NOT 0x80402010000000))"
  by (simp add: idx_def maskl_def cnot_def)

lemma lzcnt_rays_19: "lzcnt64 0x70000 = 45" "lzcnt64 0x1020 = 51" "lzcnt64 0x808 = 52" "lzcnt64 0x402 = 53"
  "lzcnt_from 64 (0x70000 :: u64) = 45" "lzcnt_from 64 (0x1020 :: u64) = 51"
  "lzcnt_from 64 (0x808 :: u64) = 52" "lzcnt_from 64 (0x402 :: u64) = 53"
  by (simp_all add: lzcnt64_def eval_nat_numeral)

lemma flip_opening_move:
  "flip 19 0x810000000 0x1008000000 = Some 0x8000000
     \<and> flip_clz z 19 0x810000000 0x1008000000 = Some 0x8000000
     \<and> flip_spec 19 0x810000000 0x1008000000 = 0x8000000"
proof -
  have "flip 19 0x810000000 0x1008000000 = Some 0x8000000"
    by (simp add: flip_rays maskr_19 maskl_19 right_flip_def left_flip_def count_opp_reverse_def
        lzcnt_rays_19 shr64_def)
  moreover have "flip_clz z 19 0x810000000 0x1008000000 = Some 0x8000000"
    by (simp add: flip_clz_rays masko_19 maskr_19 maskl_19 left_flip_def right_flip_clz_def
        count_opp_reverse_clz_def builtin_clzll_def lzcnt_rays_19 shr64_def)
  moreover have "flip_spec 19 0x810000000 0x1008000000 = 0x8000000"
    by (simp add: flip_spec_def directions_def ray_flip_def squares_mask_def eval_nat_numeral)
  ultimately show ?thesis by simp
qed

section \<open>The claims\<close>

lemma flip_at_24: "flip 24 0x100000000 0xFE000000 = Some 0xFE000000"
  by (simp add: flip_rays maskr_24 maskl_24 right_flip_def left_flip_def count_opp_reverse_def
      lzcnt64_0 lzcnt64_rays_24 shr64_def)

lemma flip_spec_at_24: "flip_spec 24 0x100000000 0xFE000000 = 0"
  by (simp add: flip_spec_def directions_def ray_flip_def squares_mask_def ray_numeral ray_one)

lemma flip_spec_at_24_full: "flip_spec 24 0xFFFFFFFF00FFFFFF 0xFE000000 = 0"
  by (simp add: flip_spec_def directions_def ray_flip_def squares_mask_def ray_numeral ray_one)

lemma flip_spec_at_39: "flip_spec 39 0x80000000 0x7F00000000 = 0"
  by (simp add: flip_spec_def directions_def ray_flip_def squares_mask_def ray_numeral ray_one)

lemma word_reverse_0: "word_reverse (0 :: u64) = 0"
  by (rule bit_eqI) (simp add: bit_word_reverse_iff)

lemma implied_opponent_at_24:
  "NOT 0xFFFFFFFF00FFFFFF AND NOT (push_bit 24 1) = (0xFE000000 :: u64)"
  by simp

lemma square_of_int: "0 \<le> pos \<Longrightarrow> pos < 64 \<Longrightarrow> \<exists>n<64. pos = int n"
  by (rule exI [of _ "nat pos"]) simp

text \<open>
  C1. \<^verbatim>\<open>flip\<close> is claimed to return, for every valid input, the union over the 8 rays of
  the opponent run next to the square when a player disc ends it on the ray. At square 24
  (row 3, column 0), with the player on square 32 and the opponent on squares 25 to 31, the
  input is valid and no ray outflanks: the row is full of opponent discs up to the edge, and
  the rule gives 0. \<^verbatim>\<open>flip\<close> returns the seven squares 25 to 31, in either build: the carry
  of the row lane leaves the row through the clear upper half of the stored mask and stops
  on square 32. On the 54 squares whose masks are whole, \<^verbatim>\<open>flip\<close> is the rule
  (\<open>flip_meets_rule\<close>).
\<close>

theorem flip_differs_from_rule_at_24:
  "\<not> bit (0x100000000 :: u64) (nat 24) \<and> \<not> bit (0xFE000000 :: u64) (nat 24)
     \<and> (0x100000000 :: u64) AND 0xFE000000 = 0
     \<and> flip 24 0x100000000 0xFE000000 = Some 0xFE000000
     \<and> (\<forall>z. flip_clz z 24 0x100000000 0xFE000000 = Some 0xFE000000)
     \<and> flip_spec 24 0x100000000 0xFE000000 = 0"
  by (simp add: flip_at_24 flip_clz_at_24 flip_spec_at_24)

text \<open>
  C2. For every line role \<open>k\<close> from 0 to 7 and every pattern from 0 to 255, the entry
  \<^verbatim>\<open>COUNT_FLIP[k][pattern]\<close> is read inside the table and equals the generation rule: twice
  the sum, over both directions from \<open>k\<close>, of the length of the run of 0-bits next to \<open>k\<close>
  when a 1-bit ends it before the boundary, and 0 for a direction whose run reaches the
  boundary.
\<close>

theorem count_flip_table_rule:
  assumes "k < 8" and "pattern < 256"
  shows "\<exists>v. COUNT_FLIP_at (int k) (int pattern) = Some v \<and> unat v = count_flip_rule k pattern"
proof -
  have "idx COUNT_FLIP (int k) = Some (COUNT_FLIP ! k)"
    using assms(1) by (simp add: idx_def length_COUNT_FLIP)
  moreover have "idx (COUNT_FLIP ! k) (int pattern) = Some (COUNT_FLIP ! k ! pattern)"
    using assms by (simp add: idx_def length_COUNT_FLIP_row)
  moreover have "unat (COUNT_FLIP ! k ! pattern) = count_flip_rule k pattern"
  proof -
    have "map unat (COUNT_FLIP ! k) ! pattern = map (count_flip_rule k) [0..<256] ! pattern"
      by (simp only: COUNT_FLIP_rows [OF assms(1)])
    with assms show ?thesis by (simp add: length_COUNT_FLIP_row)
  qed
  ultimately show ?thesis by (simp add: COUNT_FLIP_at_def)
qed

theorem count_flip_table_rule_witness:
  "(3::nat) < 8 \<and> (33::nat) < 256
     \<and> (\<exists>v. COUNT_FLIP_at (int 3) (int 33) = Some v \<and> unat v = count_flip_rule 3 33)"
  using count_flip_table_rule [of 3 33] by simp

text \<open>
  C3. \<^verbatim>\<open>last_flip\<close> is claimed to equal twice the population count of \<^verbatim>\<open>flip\<close> on the
  implied opponent. At square 24 with every square outside row 3 a player disc, square 24
  is clear in \<open>P\<close> and the implied opponent is the squares 25 to 31.
  \<^verbatim>\<open>last_flip\<close> returns 0, which is twice the number of discs that the rule flips (none);
  \<^verbatim>\<open>flip\<close> returns the seven squares of the row, whose doubled count is 14.
\<close>

theorem last_flip_disagrees_with_flip_at_24:
  "\<not> bit (0xFFFFFFFF00FFFFFF :: u64) (nat 24)
     \<and> last_flip_avx2 24 0xFFFFFFFF00FFFFFF = Some 0
     \<and> flip 24 0xFFFFFFFF00FFFFFF (NOT 0xFFFFFFFF00FFFFFF AND NOT (push_bit 24 1)) = Some 0xFE000000
     \<and> (\<forall>z. flip_clz z 24 0xFFFFFFFF00FFFFFF (NOT 0xFFFFFFFF00FFFFFF AND NOT (push_bit 24 1))
            = Some 0xFE000000)
     \<and> 2 * bit_count 0xFE000000 = 14
     \<and> flip_spec 24 0xFFFFFFFF00FFFFFF (NOT 0xFFFFFFFF00FFFFFF AND NOT (push_bit 24 1)) = 0"
proof -
  have clear: "\<not> bit (0xFFFFFFFF00FFFFFF :: u64) (nat 24)"
    by simp
  have avx2: "last_flip_avx2 24 0xFFFFFFFF00FFFFFF = Some 0"
    using last_flip_avx2_lines [of 24 "0xFFFFFFFF00FFFFFF"] by (simp add: line_counts_24)
  have count: "2 * bit_count 0xFE000000 = 14"
    by (simp add: bit_count_row)
  have rule: "flip_spec 24 0xFFFFFFFF00FFFFFF (NOT 0xFFFFFFFF00FFFFFF AND NOT (push_bit 24 1)) = 0"
    unfolding implied_opponent_at_24 by (rule flip_spec_at_24_full)
  show ?thesis
    using clear avx2 flip_at_24_full flip_clz_at_24_full count rule by blast
qed

text \<open>
  C4. For a square from 0 to 63 that is empty in both bitboards, and disjoint bitboards,
  \<^verbatim>\<open>flip\<close> returns a mask, in either build, and the mask has no bit outside the opponent
  bitboard.
\<close>

theorem flip_subset_of_opponent:
  assumes "0 \<le> pos" and "pos < 64"
    and "\<not> bit P (nat pos)" and "\<not> bit Opp (nat pos)" and "P AND Opp = 0"
  shows "(\<exists>flipped. flip pos P Opp = Some flipped \<and> flipped AND NOT Opp = 0)
       \<and> (\<exists>flipped. flip_clz z pos P Opp = Some flipped \<and> flipped AND NOT Opp = 0)"
proof -
  obtain mo1 mo7 mo8 mo9 where mo: "idx masko pos = Some (mo1, mo7, mo8, mo9)"
    using assms(1,2) by (cases "masko ! nat pos") (simp add: idx_Some length_masko)
  obtain mr1 mr7 mr8 mr9 where mr: "idx maskr pos = Some (mr1, mr7, mr8, mr9)"
    using assms(1,2) by (cases "maskr ! nat pos") (simp add: idx_Some length_maskr)
  obtain ml1 ml7 ml8 ml9 where ml: "idx maskl pos = Some ((ml1, ml7), (ml8, ml9))"
    using assms(1,2) by (cases "maskl ! nat pos") (auto simp add: idx_Some length_maskl)
  show ?thesis
    using assms(5)
    by (simp add: flip_rays flip_clz_rays mo mr ml or_and_zero right_flip_subset
        right_flip_clz_subset left_flip_subset)
qed

theorem flip_subset_of_opponent_witness:
  "0 \<le> (3::int) \<and> (3::int) < 64 \<and> \<not> bit (0x2 :: u64) (nat 3) \<and> \<not> bit (0x4 :: u64) (nat 3)
     \<and> (0x2 :: u64) AND 0x4 = 0
     \<and> (\<exists>flipped. flip 3 0x2 0x4 = Some flipped \<and> flipped AND NOT 0x4 = 0)
     \<and> (\<exists>flipped. flip_clz 0 3 0x2 0x4 = Some flipped \<and> flipped AND NOT 0x4 = 0)"
  using flip_subset_of_opponent [of 3 "0x2" "0x4" 0] by simp

text \<open>
  C5. \<^verbatim>\<open>flip\<close> is claimed to commute with the reversal of the 64 bits, which sends square
  \<open>s\<close> to \<open>63 - s\<close>. For the valid input of square 24 with the player on square 32 and the
  opponent on squares 25 to 31, \<^verbatim>\<open>flip\<close> returns the squares 25 to 31, whose reversal is the
  squares 32 to 38; on the reversed input, at square 39, it returns 0. The rule flips nothing
  on either side.
\<close>

theorem flip_not_symmetric_at_24:
  "flip (63 - 24) (word_reverse 0x100000000) (word_reverse 0xFE000000) = Some 0
     \<and> map_option word_reverse (flip 24 0x100000000 0xFE000000) = Some 0x7F00000000
     \<and> (\<forall>z. flip_clz z (63 - 24) (word_reverse 0x100000000) (word_reverse 0xFE000000) = Some 0
            \<and> map_option word_reverse (flip_clz z 24 0x100000000 0xFE000000) = Some 0x7F00000000)
     \<and> flip_spec (63 - 24) (word_reverse 0x100000000) (word_reverse 0xFE000000) = 0
     \<and> word_reverse (flip_spec 24 0x100000000 0xFE000000) = 0"
  by (simp add: word_reverse_player word_reverse_opponent flip_at_39 flip_at_24
      flip_clz_at_39 flip_clz_at_24 flip_spec_at_39 flip_spec_at_24 word_reverse_0)

text \<open>
  C6. For every square from 0 to 63 and every bitboard, \<^verbatim>\<open>last_flip\<close> returns a value,
  and the value is even and not negative.
\<close>

theorem last_flip_even:
  assumes "0 \<le> pos" and "pos < 64"
  shows "\<exists>n. last_flip_avx2 pos P = Some n \<and> 0 \<le> n \<and> even n"
proof -
  obtain n where n: "n < 64" "pos = int n"
    using square_of_int [OF assms] by blast
  from line_counts_total [OF n(1), of P] show ?thesis
    by (auto simp add: n(2) last_flip_avx2_lines [OF n(1)])
qed

theorem last_flip_even_witness:
  "0 \<le> (0::int) \<and> (0::int) < 64
     \<and> (\<exists>n. last_flip_avx2 0 0xFFFFFFFFFFFFFFF8 = Some n \<and> 0 \<le> n \<and> even n)"
  using last_flip_even [of 0 "0xFFFFFFFFFFFFFFF8"] by simp

text \<open>
  C7. Scenario B: square 3, no player disc, opponent discs on squares 0, 1 and 2. The run
  reaches the edge of the board and nothing flips, in either build.
\<close>

theorem flip_scenario_B: "flip 3 0 0x7 = Some 0 \<and> (\<forall>z. flip_clz z 3 0 0x7 = Some 0)"
  by (simp add: flip_rays maskr_3 maskl_3 right_flip_def left_flip_def count_opp_reverse_def
      lzcnt64_0 flip_clz_scenario_B)

text \<open>
  C8. Scenario C: square 0 is the last empty square and the player holds every square but
  0, 1 and 2. \<^verbatim>\<open>last_flip\<close> returns 4: the row pattern counts two discs,
  doubled, and the column and the diagonals count 0.
\<close>

theorem last_flip_scenario_C:
  "last_flip_avx2 0 0xFFFFFFFFFFFFFFF8 = Some 4"
  using last_flip_avx2_lines [of 0 "0xFFFFFFFFFFFFFFF8"]
  by (simp add: line_counts_scenario_C)

text \<open>
  C10. For every square from 0 to 63 and every bitboard, with no other condition: the
  fourth lane of the row of \<^verbatim>\<open>mask_d_v\<close> is 0, the index \<^verbatim>\<open>t >> 16\<close> is at most 255,
  every table read is inside its table (\<^verbatim>\<open>last_flip\<close> returns a value), and the value lies
  between 0 and 48.
\<close>

theorem last_flip_reads_in_bounds:
  assumes "0 \<le> pos" and "pos < 64"
  shows "(\<exists>a b c. idx mask_d_v pos = Some (a, b, c, 0)
            \<and> uint (drop_bit 16 (NOT (mm256_movemask_epi8 (mm256_cmpeq_epi8
                 (mm256_and_si256 (mm256_broadcastq_epi64 (mm_cvtsi64_si128 P)) (a, b, c, 0))
                 mm256_setzero_si256)))) \<le> 255)
       \<and> (\<exists>n. last_flip_avx2 pos P = Some n \<and> 0 \<le> n \<and> n \<le> 48)"
proof -
  obtain n where n: "n < 64" "pos = int n"
    using square_of_int [OF assms] by blast
  obtain a b c where row: "mask_d_v ! n = (a, b, c, 0)"
    using mask_d_v_row [OF n(1)] by blast
  have m: "idx mask_d_v pos = Some (a, b, c, 0)"
    using n by (simp add: idx_def length_mask_d_v row)
  have "uint (nonzero_bytes (P AND c)) < 2 ^ 8"
    using uint_lt2p [of "nonzero_bytes (P AND c)"] by simp
  then have t: "uint (drop_bit 16 (NOT (mm256_movemask_epi8 (mm256_cmpeq_epi8
      (mm256_and_si256 (mm256_broadcastq_epi64 (mm_cvtsi64_si128 P)) (a, b, c, 0))
      mm256_setzero_si256)))) \<le> 255"
    by (simp add: mm_cvtsi64_si128_def mm256_broadcastq_epi64_def t_avx2_top uint_ucast_u8)
  from line_counts_total [OF n(1), of P] m t show ?thesis
    by (auto simp add: n(2) last_flip_avx2_lines [OF n(1)])
qed

theorem last_flip_reads_in_bounds_witness:
  "0 \<le> (0::int) \<and> (0::int) < 64
     \<and> (\<exists>a b c. idx mask_d_v 0 = Some (a, b, c, 0)
            \<and> uint (drop_bit 16 (NOT (mm256_movemask_epi8 (mm256_cmpeq_epi8
                 (mm256_and_si256 (mm256_broadcastq_epi64 (mm_cvtsi64_si128 0xFFFFFFFFFFFFFFF8))
                    (a, b, c, 0))
                 mm256_setzero_si256)))) \<le> 255)
     \<and> (\<exists>n. last_flip_avx2 0 0xFFFFFFFFFFFFFFF8 = Some n \<and> 0 \<le> n \<and> n \<le> 48)"
  using last_flip_reads_in_bounds [of 0 "0xFFFFFFFFFFFFFFF8"] by simp

end
